theory Spec2Isabelle
  imports Complex_Main "HOL-Library.AList" "HOL-Library.Multiset" "HOL-Library.Sublist"
begin

section \<open>Common JavaScript notions\<close>

text \<open>
  Exceptions a model function can end with. \<open>TypeError\<close> is what JavaScript raises
  on a property access or method call on \<open>undefined\<close>/\<open>null\<close>,
  \<open>ReferenceError\<close> on reading an undeclared identifier; the DOM exceptions are
  raised by \<open>insertBefore\<close>, \<open>appendChild\<close> and \<open>removeChild\<close>
  (\<open>NotFoundError\<close>, \<open>HierarchyRequestError\<close>) and by
  \<open>createElement\<close> and \<open>setAttribute\<close> on a name they do not accept
  (\<open>InvalidCharacterError\<close>).
\<close>

datatype js_error =
  TypeError | ReferenceError | NotFoundError | HierarchyRequestError | InvalidCharacterError

text \<open>ASCII \<open>toLowerCase\<close> / \<open>toUpperCase\<close> of a string.\<close>

definition lower_of_upper :: "(char \<times> char) list" where
  "lower_of_upper = zip ''ABCDEFGHIJKLMNOPQRSTUVWXYZ'' ''abcdefghijklmnopqrstuvwxyz''"

definition toLowerCase :: "string \<Rightarrow> string" where
  "toLowerCase s = map (\<lambda>c. case map_of lower_of_upper c of Some l \<Rightarrow> l | None \<Rightarrow> c) s"

definition toUpperCase :: "string \<Rightarrow> string" where
  "toUpperCase s =
     map (\<lambda>c. case map_of (map (\<lambda>(u, l). (l, u)) lower_of_upper) c of Some u \<Rightarrow> u | None \<Rightarrow> c) s"

section \<open>The document: a store of nodes\<close>

text \<open>
  DOM nodes are mutable objects that the code shares by reference (the identity map, the
  parent and child links, the sanitizer's wrapper), so a node is an address into a store.
  \<open>next_addr\<close> is the allocation counter: \<open>createElement\<close> and
  \<open>createTextNode\<close> return the node at \<open>next_addr\<close> and advance it.
  The fields are the ones the two source files read or write. \<open>className\<close> is
  the \<open>class\<close> attribute, as in the DOM; \<open>style\<close> holds the entries
  assigned through \<open>node.style[..] = ..\<close>, \<open>props\<close> is the state that
  the node's properties hold beyond the other fields (it is written only by the browser's
  \<open>assign_property\<close>), and \<open>node_id\<close> is the expando \<open>__id\<close>.
\<close>

type_synonym addr = nat

record dnode =
  nodeType :: nat
  nodeName :: string
  attributes :: "(string \<times> string) list"
  style :: "(string \<times> string) list"
  props :: "(string \<times> string) list"
  nodeValue :: string
  childNodes :: "addr list"
  parentNode :: "addr option"
  node_id :: "string option"

record document =
  nodes :: "addr \<Rightarrow> dnode"
  next_addr :: nat

text \<open>
  What the renderer takes from the browser and from the libraries it loads, as parameters
  of the model:
  \<^item> \<open>DOMPurify_sanitize\<close>: the in-place pass
    \<open>DOMPurify.sanitize(node, {IN_PLACE: true})\<close>; given the node it is called on,
    it turns the document into the sanitized one, or throws;
  \<^item> \<open>valid_element_name\<close>, \<open>valid_attribute_name\<close>: the names that
    \<open>createElement\<close> and \<open>setAttribute\<close> accept;
  \<^item> \<open>assign_property\<close>: what the assignment \<open>node[propertyName] = value\<close>
    does to the document, or the exception it throws (a read-only property in strict code);
    a property setter of the DOM may change attributes, children and other nodes;
  \<^item> \<open>number_minus\<close>, \<open>number_plus\<close>, \<open>Math_pow\<close>,
    \<open>Math_sqrt\<close>: the arithmetic of the engine on its numbers (IEEE doubles). A
    finite number is the real it denotes; \<open>None\<close> is a value that is not a finite
    number (\<open>NaN\<close>, an infinity, or \<open>undefined\<close> before its conversion).
\<close>

type_synonym purifier = "addr \<Rightarrow> document \<Rightarrow> js_error + document"

record browser =
  DOMPurify_sanitize :: purifier
  valid_element_name :: "string \<Rightarrow> bool"
  valid_attribute_name :: "string \<Rightarrow> bool"
  assign_property :: "addr \<Rightarrow> string \<Rightarrow> string \<Rightarrow> document \<Rightarrow> js_error + document"
  number_minus :: "real option \<Rightarrow> real option \<Rightarrow> real option"
  number_plus :: "real option \<Rightarrow> real option \<Rightarrow> real option"
  Math_pow :: "real option \<Rightarrow> real \<Rightarrow> real option"
  Math_sqrt :: "real option \<Rightarrow> real option"

definition TEXT_NODE :: nat where
  "TEXT_NODE = 3"

definition ELEMENT_NODE :: nat where
  "ELEMENT_NODE = 1"

definition blank_node :: dnode where
  "blank_node = \<lparr>nodeType = 0, nodeName = [], attributes = [], style = [], props = [],
     nodeValue = [], childNodes = [], parentNode = None, node_id = None\<rparr>"

definition createTextNode :: "string \<Rightarrow> document \<Rightarrow> addr \<times> document" where
  "createTextNode dat d =
     (next_addr d,
      d\<lparr>nodes := (nodes d)(next_addr d :=
             blank_node\<lparr>nodeType := TEXT_NODE, nodeName := ''#text'', nodeValue := dat\<rparr>),
        next_addr := Suc (next_addr d)\<rparr>)"

text \<open>\<open>createElement\<close> throws on a name it does not accept; in an HTML document
  the \<open>nodeName\<close> of the element is the name in upper case.\<close>

definition createElement :: "browser \<Rightarrow> string \<Rightarrow> document \<Rightarrow> js_error + addr \<times> document" where
  "createElement b nm d =
     (if valid_element_name b nm
      then Inr (next_addr d,
             d\<lparr>nodes := (nodes d)(next_addr d :=
                    blank_node\<lparr>nodeType := ELEMENT_NODE, nodeName := toUpperCase nm\<rparr>),
               next_addr := Suc (next_addr d)\<rparr>)
      else Inl InvalidCharacterError)"

definition className :: "dnode \<Rightarrow> string" where
  "className n = (case map_of (attributes n) ''class'' of Some v \<Rightarrow> v | None \<Rightarrow> [])"

definition upd_node :: "addr \<Rightarrow> (dnode \<Rightarrow> dnode) \<Rightarrow> document \<Rightarrow> document" where
  "upd_node a f d = d\<lparr>nodes := (nodes d)(a := f (nodes d a))\<rparr>"

text \<open>
  \<open>setAttribute\<close> exists on elements only (on a text node the call is a
  \<open>TypeError\<close>: not a function); it throws on a name it does not accept, before
  anything is written; in an HTML document it lower-cases the name, replaces the value of
  an attribute that is present and appends a new one otherwise.
\<close>

definition setAttribute ::
  "browser \<Rightarrow> addr \<Rightarrow> string \<Rightarrow> string \<Rightarrow> document \<Rightarrow> js_error + document" where
  "setAttribute b a name v d =
     (if nodeType (nodes d a) \<noteq> ELEMENT_NODE then Inl TypeError
      else if \<not> valid_attribute_name b name then Inl InvalidCharacterError
      else Inr (upd_node a (\<lambda>n. n\<lparr>attributes := AList.update (toLowerCase name) v (attributes n)\<rparr>) d))"

definition firstChild :: "document \<Rightarrow> addr \<Rightarrow> addr option" where
  "firstChild d a = (case childNodes (nodes d a) of [] \<Rightarrow> None | c # cs \<Rightarrow> Some c)"

text \<open>Whether \<open>a\<close> is \<open>b\<close> or an ancestor of \<open>b\<close>: the parent
  chain of \<open>b\<close> is followed for at most \<open>fuel\<close> links; the callers pass
  the number of allocated nodes, which no parent chain of a tree exceeds.\<close>

fun inclusive_ancestor :: "nat \<Rightarrow> document \<Rightarrow> addr \<Rightarrow> addr \<Rightarrow> bool" where
  "inclusive_ancestor 0 d a b = (a = b)"
| "inclusive_ancestor (Suc fuel) d a b =
     (a = b \<or> (case parentNode (nodes d b) of None \<Rightarrow> False
                | Some p \<Rightarrow> inclusive_ancestor fuel d a p))"

definition detach :: "addr \<Rightarrow> document \<Rightarrow> document" where
  "detach c d =
     (case parentNode (nodes d c) of
        None \<Rightarrow> d
      | Some p \<Rightarrow>
          upd_node c (\<lambda>n. n\<lparr>parentNode := None\<rparr>)
            (upd_node p (\<lambda>n. n\<lparr>childNodes := removeAll c (childNodes n)\<rparr>) d))"

definition removeChild :: "addr \<Rightarrow> addr \<Rightarrow> document \<Rightarrow> js_error + document" where
  "removeChild p c d =
     (if parentNode (nodes d c) = Some p then Inr (detach c d) else Inl NotFoundError)"

fun insert_before_in :: "addr \<Rightarrow> addr option \<Rightarrow> addr list \<Rightarrow> addr list" where
  "insert_before_in new None xs = xs @ [new]"
| "insert_before_in new (Some ref) [] = [new]"
| "insert_before_in new (Some ref) (x # xs) =
     (if x = ref then new # x # xs else x # insert_before_in new (Some ref) xs)"

text \<open>
  \<open>parent.insertBefore(newNode, ref)\<close>, \<open>ref\<close> being \<open>null\<close> for
  an append. The DOM refuses a parent that is not an element, a document or a document
  fragment (node types 1, 9, 11) and a node that is the parent or one of its ancestors
  (\<open>HierarchyRequestError\<close>), and a reference node that is not a child of the
  parent (\<open>NotFoundError\<close>); a node that has a parent is first removed from it;
  inserting a node before itself leaves it in place.
\<close>

definition insertBefore :: "addr \<Rightarrow> addr \<Rightarrow> addr option \<Rightarrow> document \<Rightarrow> js_error + document" where
  "insertBefore p new ref d =
     (if nodeType (nodes d p) \<notin> set [1, 9, 11] \<or> inclusive_ancestor (next_addr d) d new p
      then Inl HierarchyRequestError
      else if (case ref of None \<Rightarrow> False | Some r \<Rightarrow> parentNode (nodes d r) \<noteq> Some p)
      then Inl NotFoundError
      else if ref = Some new then Inr d
      else Inr (upd_node new (\<lambda>n. n\<lparr>parentNode := Some p\<rparr>)
                 (upd_node p (\<lambda>n. n\<lparr>childNodes := insert_before_in new ref (childNodes n)\<rparr>)
                    (detach new d))))"

definition appendChild :: "addr \<Rightarrow> addr \<Rightarrow> document \<Rightarrow> js_error + document" where
  "appendChild p c d = insertBefore p c None d"

section \<open>amp-script.js: the mutation pump\<close>

definition MAX_FREE_MUTATION_HEIGHT :: real where
  "MAX_FREE_MUTATION_HEIGHT = 300"

definition Phase_HYDRATING :: int where
  "Phase_HYDRATING = 1"

definition Phase_MUTATING :: int where
  "Phase_MUTATING = 2"

text \<open>
  The part of an \<open>AmpScript\<close> instance that \<open>mutationPump_\<close> reads and writes.
  \<open>vsync_.mutate(callback)\<close> defers its callback to the next frame, so the pump only
  queues it: \<open>AddHydratedClass\<close> is the callback of line 251 and
  \<open>FlushMutations\<close> the one of lines 264-282, which calls \<open>flushMutations()\<close>
  and then, in that later frame, fits the iframe to its content.
  \<open>workerDom_\<close> is \<open>null\<close> until \<open>upgrade\<close> has resolved.
  \<open>userActive\<close> is what \<open>userActivation_.isActive()\<close> answers, and
  \<open>layoutBoxHeight\<close> is \<open>getLayoutBox().height\<close>. \<open>isLayoutSizeDefined\<close>
  (src/layout.js) is a parameter.
\<close>

type_synonym layout = string

datatype vsync_task = AddHydratedClass | FlushMutations

record worker_dom =
  terminated :: bool

record amp_script =
  classList :: "string list"
  workerDom :: "worker_dom option"
  userActive :: bool
  getLayout :: layout
  layoutBoxHeight :: real
  vsync_queue :: "vsync_task list"

definition classList_add :: "string \<Rightarrow> string list \<Rightarrow> string list" where
  "classList_add c cs = (if c \<in> set cs then cs else cs @ [c])"

definition classList_remove :: "string \<Rightarrow> string list \<Rightarrow> string list" where
  "classList_remove c cs = removeAll c cs"

definition allowMutation :: "(layout \<Rightarrow> bool) \<Rightarrow> int \<Rightarrow> amp_script \<Rightarrow> bool" where
  "allowMutation isLayoutSizeDefined phase s =
     (phase \<noteq> Phase_MUTATING
      \<or> userActive s
      \<or> (isLayoutSizeDefined (getLayout s) \<and> layoutBoxHeight s \<le> MAX_FREE_MUTATION_HEIGHT))"

definition mutationPump :: "(layout \<Rightarrow> bool) \<Rightarrow> int \<Rightarrow> amp_script \<Rightarrow> js_error + amp_script" where
  "mutationPump isLayoutSizeDefined phase s =
     (let s1 = (if phase = Phase_HYDRATING
                then s\<lparr>vsync_queue := vsync_queue s @ [AddHydratedClass]\<rparr> else s)
      in if allowMutation isLayoutSizeDefined phase s1
         then Inr (s1\<lparr>vsync_queue := vsync_queue s1 @ [FlushMutations]\<rparr>)
         else (case workerDom s1 of
                 None \<Rightarrow> Inl TypeError
               | Some w \<Rightarrow>
                   Inr (s1\<lparr>workerDom := Some (w\<lparr>terminated := True\<rparr>),
                           classList := classList_add ''i-amphtml-broken''
                             (classList_remove ''i-amphtml-hydrated'' (classList s1))\<rparr>)))"

text \<open>What the claims observe of a pump call: whether the flush of the batch was queued,
  and whether the worker has been terminated.\<close>

definition flush_queued :: "amp_script \<Rightarrow> js_error + amp_script \<Rightarrow> bool" where
  "flush_queued s res =
     (case res of Inl e \<Rightarrow> False
      | Inr s' \<Rightarrow> count_list (vsync_queue s') FlushMutations
                   = Suc (count_list (vsync_queue s) FlushMutations))"

definition worker_terminated :: "amp_script \<Rightarrow> bool" where
  "worker_terminated s = (case workerDom s of None \<Rightarrow> False | Some w \<Rightarrow> terminated w)"

section \<open>The renderer: identity map and materializer\<close>

text \<open>
  The renderer is the first file of \<open>src/unnamed/part_000\<close>: a closure over the
  worker, the window and the root, whose variables are the state below. A skeleton is taken
  as the worker sends it. A missing \<open>className\<close>, \<open>style\<close>,
  \<open>attributes\<close> or \<open>childNodes\<close> field behaves in \<open>createNode\<close> like
  the empty one, so the fields are a string and lists.
\<close>

datatype skeleton = Skeleton
  (sk_nodeType: nat) (sk_nodeName: string) (sk_className: string)
  (sk_style: "(string \<times> string) list") (sk_attributes: "(string \<times> string) list")
  (sk_childNodes: "skeleton list") (sk_data: string) (sk_id: string)

text \<open>What \<open>getNode\<close> is given: nothing (\<open>null\<close>, \<open>undefined\<close>),
  an id string, or a serialized node object.\<close>

datatype noderef = NullRef | IdRef string | ObjRef skeleton

datatype mutation =
    ChildList noderef "noderef list" "skeleton list" noderef noderef
  | Attributes noderef string string string
  | CharacterData noderef string string
  | Properties noderef string string string

record mutation_record =
  timestamp :: int
  payload :: mutation

text \<open>A coordinate pair as \<open>getTouch\<close> returns it; \<open>None\<close> is a
  coordinate that is \<open>undefined\<close>.\<close>

record touch =
  pageX :: "real option"
  pageY :: "real option"

datatype jsval = JUndefined | JNull | JBool bool | JNum real | JStr string | JObject | JFunction

text \<open>The event object built by \<open>proxyEvent\<close> and posted to the worker.\<close>

record proxied_event =
  pe_type :: string
  pe_target :: "string option option"
  pe_value :: "string option"
  pe_props :: "(string \<times> jsval) list"

datatype message = EventMessage proxied_event | InitMessage string

text \<open>
  The state of one renderer closure: the document, the identity map \<open>NODES\<close>, the
  root, the gesture clock, \<open>touchStart\<close>, the messages posted to the worker,
  \<open>MUTATION_QUEUE\<close>, and the scheduler: \<open>mutationTimer\<close> with the handles of
  the timeouts that are pending (\<open>timers\<close>, \<open>next_timer\<close> the next handle) and the
  number of pending \<open>requestIdleCallback(processMutations)\<close> callbacks.
  \<open>windowSizeCache\<close> is the viewport cache of \<open>isElementInViewport\<close>.
  Console output and the \<open>latency\<close> counter of sanitization time are left out.
\<close>

record renderer =
  doc :: document
  NODES :: "string \<rightharpoonup> addr"
  root :: addr
  timeOfLastUserGesture :: int
  touchStart :: "touch option"
  outbox :: "message list"
  MUTATION_QUEUE :: "mutation_record list"
  mutationTimer :: "nat option"
  timers :: "nat list"
  next_timer :: nat
  idle_callbacks :: nat
  windowSizeCache_height :: "real option"
  windowSizeCache_width :: "real option"

definition getNode :: "renderer \<Rightarrow> noderef \<Rightarrow> addr option" where
  "getNode r nodeOrId =
     (case nodeOrId of
        NullRef \<Rightarrow> None
      | IdRef i \<Rightarrow> (if i = [] then None else NODES r i)
      | ObjRef sk \<Rightarrow> (if sk_nodeName sk = ''BODY'' then Some (root r) else NODES r (sk_id sk)))"

definition bindNodeToSkeletonId :: "addr \<Rightarrow> string \<Rightarrow> renderer \<Rightarrow> renderer" where
  "bindNodeToSkeletonId node i r =
     r\<lparr>doc := upd_node node (\<lambda>n. n\<lparr>node_id := Some i\<rparr>) (doc r),
       NODES := (NODES r)(i \<mapsto> node)\<rparr>"

definition SANITIZE_IN_PLACE :: bool where
  "SANITIZE_IN_PLACE = True"

text \<open>The attribute loop of \<open>createNode\<close> (lines 181-184).\<close>

fun setAttributes ::
  "browser \<Rightarrow> addr \<Rightarrow> (string \<times> string) list \<Rightarrow> document \<Rightarrow> js_error + document" where
  "setAttributes b a [] d = Inr d"
| "setAttributes b a ((name, v) # rest) d =
     (case setAttribute b a name v d of
        Inl e \<Rightarrow> Inl e
      | Inr d' \<Rightarrow> setAttributes b a rest d')"

text \<open>The tail of \<open>createNode\<close> (lines 201-208): the in-place sanitizer pass when
  \<open>sanitize\<close> is set, then the binding of the id.\<close>

definition sanitize_and_bind ::
  "browser \<Rightarrow> bool \<Rightarrow> addr \<Rightarrow> string \<Rightarrow> renderer \<Rightarrow> (js_error + addr) \<times> renderer" where
  "sanitize_and_bind b sanitize node i r =
     (if sanitize \<and> SANITIZE_IN_PLACE
      then (case DOMPurify_sanitize b node (doc r) of
              Inl e \<Rightarrow> (Inl e, r)
            | Inr d \<Rightarrow> (Inr node, bindNodeToSkeletonId node i (r\<lparr>doc := d\<rparr>)))
      else (Inr node, bindNodeToSkeletonId node i r))"

text \<open>
  \<open>createNode(skeleton, sanitize)\<close>. The result is the exception or the node,
  together with the state reached. Line 176 reads \<open>node.style[i] = styles[s]\<close> with
  no \<open>i\<close> in scope (the loop variable is \<open>s\<close>; the \<open>i\<close> of the later
  loops are block-scoped), so the first own entry of the style map ends the call with a
  \<open>ReferenceError\<close>. With \<open>SANITIZE_IN_PLACE\<close> true the branch of lines
  186-192 is dead and the children are created with \<open>sanitize = false\<close>. For a
  \<open>nodeType\<close> that is neither text nor element \<open>node\<close> stays
  \<open>undefined\<close>, and line 204 or line 368 throws a \<open>TypeError\<close>.
  \<open>createChildren\<close> is the loop of lines 194-198.
\<close>

fun createNode :: "browser \<Rightarrow> skeleton \<Rightarrow> bool \<Rightarrow> renderer \<Rightarrow> (js_error + addr) \<times> renderer"
  and createChildren :: "browser \<Rightarrow> addr \<Rightarrow> skeleton list \<Rightarrow> renderer \<Rightarrow> (js_error + unit) \<times> renderer"
where
  "createNode b (Skeleton ty nm cls sty atts chs dat i) sanitize r =
     (if ty = TEXT_NODE then
        (case createTextNode dat (doc r) of
           (node, d) \<Rightarrow> sanitize_and_bind b sanitize node i (r\<lparr>doc := d\<rparr>))
      else if ty = ELEMENT_NODE then
        (case createElement b nm (doc r) of
           Inl e \<Rightarrow> (Inl e, r)
         | Inr (node, d0) \<Rightarrow>
             (let d1 = (if cls \<noteq> []
                        then upd_node node (\<lambda>n. n\<lparr>attributes := AList.update ''class'' cls (attributes n)\<rparr>) d0
                        else d0)
              in if sty \<noteq> [] then (Inl ReferenceError, r\<lparr>doc := d1\<rparr>)
                 else (case setAttributes b node atts d1 of
                         Inl e \<Rightarrow> (Inl e, r\<lparr>doc := d1\<rparr>)
                       | Inr d2 \<Rightarrow>
                           (case createChildren b node chs (r\<lparr>doc := d2\<rparr>) of
                              (Inl e, r') \<Rightarrow> (Inl e, r')
                            | (Inr u, r') \<Rightarrow> sanitize_and_bind b sanitize node i r'))))
      else (Inl TypeError, r))"
| "createChildren b node [] r = (Inr (), r)"
| "createChildren b node (c # cs) r =
     (case createNode b c (\<not> SANITIZE_IN_PLACE) r of
        (Inl e, r') \<Rightarrow> (Inl e, r')
      | (Inr child, r') \<Rightarrow>
          (case appendChild node child (doc r') of
             Inl e \<Rightarrow> (Inl e, r')
           | Inr d \<Rightarrow> createChildren b node cs (r'\<lparr>doc := d\<rparr>)))"

section \<open>The renderer: applying mutation records\<close>

text \<open>The loop of lines 216-218 over \<open>removedNodes\<close>, from the last entry to the
  first: the caller passes the reversed list. \<open>parent.removeChild\<close> on an
  \<open>undefined\<close> parent and \<open>removeChild(undefined)\<close> are \<open>TypeError\<close>s.\<close>

fun removeNodes :: "addr option \<Rightarrow> noderef list \<Rightarrow> renderer \<Rightarrow> (js_error + unit) \<times> renderer" where
  "removeNodes parent [] r = (Inr (), r)"
| "removeNodes parent (x # xs) r =
     (case parent of
        None \<Rightarrow> (Inl TypeError, r)
      | Some p \<Rightarrow>
          (case getNode r x of
             None \<Rightarrow> (Inl TypeError, r)
           | Some c \<Rightarrow>
               (case removeChild p c (doc r) of
                  Inl e \<Rightarrow> (Inl e, r)
                | Inr d \<Rightarrow> removeNodes parent xs (r\<lparr>doc := d\<rparr>))))"

text \<open>The loop of lines 221-227 over \<open>addedNodes\<close>: a node that does not resolve
  is created (and sanitized) first, then it is inserted before \<open>nextSibling\<close>.\<close>

fun addNodes ::
  "browser \<Rightarrow> addr option \<Rightarrow> noderef \<Rightarrow> skeleton list \<Rightarrow> renderer \<Rightarrow> (js_error + unit) \<times> renderer" where
  "addNodes b parent nextSibling [] r = (Inr (), r)"
| "addNodes b parent nextSibling (sk # sks) r =
     (case (case getNode r (ObjRef sk) of
              Some n \<Rightarrow> (Inr n, r)
            | None \<Rightarrow> createNode b sk True r) of
        (Inl e, r') \<Rightarrow> (Inl e, r')
      | (Inr newNode, r') \<Rightarrow>
          (case parent of
             None \<Rightarrow> (Inl TypeError, r')
           | Some p \<Rightarrow>
               (case insertBefore p newNode (getNode r' nextSibling) (doc r') of
                  Inl e \<Rightarrow> (Inl e, r')
                | Inr d \<Rightarrow> addNodes b parent nextSibling sks (r'\<lparr>doc := d\<rparr>))))"

definition MUTATIONS_childList ::
  "browser \<Rightarrow> noderef \<Rightarrow> noderef list \<Rightarrow> skeleton list \<Rightarrow> noderef \<Rightarrow> renderer
     \<Rightarrow> (js_error + unit) \<times> renderer" where
  "MUTATIONS_childList b target removedNodes addedNodes nextSibling r =
     (let parent = getNode r target in
      case removeNodes parent (rev removedNodes) r of
        (Inl e, r') \<Rightarrow> (Inl e, r')
      | (Inr u, r') \<Rightarrow> addNodes b parent nextSibling addedNodes r')"

definition MUTATIONS_attributes ::
  "browser \<Rightarrow> noderef \<Rightarrow> string \<Rightarrow> string \<Rightarrow> renderer \<Rightarrow> (js_error + unit) \<times> renderer" where
  "MUTATIONS_attributes b target attributeName v r =
     (case getNode r target of
        None \<Rightarrow> (Inl TypeError, r)
      | Some node \<Rightarrow>
          (case setAttribute b node attributeName v (doc r) of
             Inl e \<Rightarrow> (Inl e, r)
           | Inr d \<Rightarrow>
               (case DOMPurify_sanitize b node d of
                  Inl e \<Rightarrow> (Inl e, r\<lparr>doc := d\<rparr>)
                | Inr d' \<Rightarrow> (Inr (), r\<lparr>doc := d'\<rparr>))))"

text \<open>Assigning \<open>nodeValue\<close> changes the data of a character-data node or attribute
  node (node types 2, 3, 4, 7, 8) and does nothing on any other node.\<close>

definition set_nodeValue :: "addr \<Rightarrow> string \<Rightarrow> document \<Rightarrow> document" where
  "set_nodeValue a v d =
     (if nodeType (nodes d a) \<in> set [2, 3, 4, 7, 8]
      then upd_node a (\<lambda>n. n\<lparr>nodeValue := v\<rparr>) d else d)"

definition MUTATIONS_characterData ::
  "noderef \<Rightarrow> string \<Rightarrow> renderer \<Rightarrow> (js_error + unit) \<times> renderer" where
  "MUTATIONS_characterData target v r =
     (case getNode r target of
        None \<Rightarrow> (Inl TypeError, r)
      | Some node \<Rightarrow> (Inr (), r\<lparr>doc := set_nodeValue node v (doc r)\<rparr>))"

text \<open>Line 245 assigns the property, which is the browser's to carry out (it may throw);
  the sanitizer runs after it, on the document the assignment has left.\<close>

definition MUTATIONS_properties ::
  "browser \<Rightarrow> noderef \<Rightarrow> string \<Rightarrow> string \<Rightarrow> renderer \<Rightarrow> (js_error + unit) \<times> renderer" where
  "MUTATIONS_properties b target propertyName v r =
     (case getNode r target of
        None \<Rightarrow> (Inl TypeError, r)
      | Some node \<Rightarrow>
          (case assign_property b node propertyName v (doc r) of
             Inl e \<Rightarrow> (Inl e, r)
           | Inr d \<Rightarrow>
               (case DOMPurify_sanitize b node d of
                  Inl e \<Rightarrow> (Inl e, r\<lparr>doc := d\<rparr>)
                | Inr d' \<Rightarrow> (Inr (), r\<lparr>doc := d'\<rparr>))))"

text \<open>\<open>MUTATIONS[mutation.type](mutation)\<close>.\<close>

fun MUTATIONS :: "browser \<Rightarrow> mutation \<Rightarrow> renderer \<Rightarrow> (js_error + unit) \<times> renderer" where
  "MUTATIONS b (ChildList target removedNodes addedNodes previousSibling nextSibling) r =
     MUTATIONS_childList b target removedNodes addedNodes nextSibling r"
| "MUTATIONS b (Attributes target attributeName v oldValue) r =
     MUTATIONS_attributes b target attributeName v r"
| "MUTATIONS b (CharacterData target v oldValue) r =
     MUTATIONS_characterData target v r"
| "MUTATIONS b (Properties target propertyName v oldValue) r =
     MUTATIONS_properties b target propertyName v r"

fun mutation_target :: "mutation \<Rightarrow> noderef" where
  "mutation_target (ChildList target removedNodes addedNodes previousSibling nextSibling) = target"
| "mutation_target (Attributes target attributeName v oldValue) = target"
| "mutation_target (CharacterData target v oldValue) = target"
| "mutation_target (Properties target propertyName v oldValue) = target"

fun mutation_type :: "mutation \<Rightarrow> string" where
  "mutation_type (ChildList target removedNodes addedNodes previousSibling nextSibling) = ''childList''"
| "mutation_type (Attributes target attributeName v oldValue) = ''attributes''"
| "mutation_type (CharacterData target v oldValue) = ''characterData''"
| "mutation_type (Properties target propertyName v oldValue) = ''properties''"


section \<open>The renderer: the mutation queue and its scheduler\<close>



definition exceeds :: "int option \<Rightarrow> int \<Rightarrow> bool" where
  "exceeds threshold latency = (case threshold of None \<Rightarrow> False | Some t \<Rightarrow> latency > t)"

text \<open>What the browser tells \<open>isElementInViewport\<close>: the bounding box of a node in
  the current document, and the size of the window.\<close>

record rect =
  bbox_top :: real
  bbox_left :: real
  bbox_bottom :: real
  bbox_right :: real

record window_env =
  getBoundingClientRect :: "document \<Rightarrow> addr \<Rightarrow> rect"
  innerHeight :: real
  innerWidth :: real

definition cached_height :: "window_env \<Rightarrow> renderer \<Rightarrow> real \<times> renderer" where
  "cached_height w r =
     (case windowSizeCache_height r of
        Some h \<Rightarrow> (if h \<noteq> 0 then (h, r)
                   else (innerHeight w, r\<lparr>windowSizeCache_height := Some (innerHeight w)\<rparr>))
      | None \<Rightarrow> (innerHeight w, r\<lparr>windowSizeCache_height := Some (innerHeight w)\<rparr>))"

definition cached_width :: "window_env \<Rightarrow> renderer \<Rightarrow> real \<times> renderer" where
  "cached_width w r =
     (case windowSizeCache_width r of
        Some v \<Rightarrow> (if v \<noteq> 0 then (v, r)
                   else (innerWidth w, r\<lparr>windowSizeCache_width := Some (innerWidth w)\<rparr>))
      | None \<Rightarrow> (innerWidth w, r\<lparr>windowSizeCache_width := Some (innerWidth w)\<rparr>))"

text \<open>\<open>isElementInViewport(el)\<close>; a text node without a parent makes
  \<open>el.getBoundingClientRect()\<close> a \<open>TypeError\<close>. The conjunction is evaluated left
  to right, so the cache is filled only as far as the evaluation gets.\<close>

definition isElementInViewport :: "window_env \<Rightarrow> addr \<Rightarrow> renderer \<Rightarrow> (js_error + bool) \<times> renderer" where
  "isElementInViewport w el0 r =
     (case (if nodeType (nodes (doc r) el0) = 3 then parentNode (nodes (doc r) el0) else Some el0) of
        None \<Rightarrow> (Inl TypeError, r)
      | Some el \<Rightarrow>
          (let bbox = getBoundingClientRect w (doc r) el in
           if \<not> (bbox_bottom bbox \<ge> 0 \<and> bbox_right bbox \<ge> 0) then (Inr False, r)
           else (case cached_height w r of
                   (h, r1) \<Rightarrow>
                     if \<not> bbox_top bbox \<le> h then (Inr False, r1)
                     else (case cached_width w r1 of
                             (v, r2) \<Rightarrow> (Inr (bbox_left bbox \<le> v), r2)))))"

text \<open>Lines 304-309: whether the record is passed over because it is a text or attribute
  change of a node that resolves and is outside the viewport.\<close>

definition offscreen_skip :: "window_env \<Rightarrow> mutation \<Rightarrow> renderer \<Rightarrow> (js_error + bool) \<times> renderer" where
  "offscreen_skip w m r =
     (if mutation_type m = ''characterData'' \<or> mutation_type m = ''attributes''
      then (case getNode r (mutation_target m) of
              None \<Rightarrow> (Inr False, r)
            | Some t \<Rightarrow>
                (case isElementInViewport w t r of
                   (Inl e, r') \<Rightarrow> (Inl e, r')
                 | (Inr visible, r') \<Rightarrow> (Inr (\<not> visible), r')))
      else (Inr False, r))"

text \<open>
  The readings of the clock during one call of \<open>processMutations\<close>:
  \<open>deadline_timeRemaining\<close> is \<open>None\<close> when no deadline object was passed (the
  timer path), and otherwise gives what the \<open>k\<close>-th call of
  \<open>deadline.timeRemaining()\<close> returns; \<open>date_now k\<close> is the \<open>k\<close>-th reading
  of \<open>Date.now()\<close>, reading 0 being \<open>start\<close>.
\<close>

record drain_clock =
  deadline_timeRemaining :: "(nat \<Rightarrow> real) option"
  date_now :: "nat \<Rightarrow> int"

definition out_of_time :: "drain_clock \<Rightarrow> nat \<Rightarrow> bool" where
  "out_of_time c k =
     (case deadline_timeRemaining c of
        Some remaining \<Rightarrow> remaining k \<le> 0
      | None \<Rightarrow> date_now c (Suc k) - date_now c 0 > 1)"

definition clearTimeout :: "nat option \<Rightarrow> renderer \<Rightarrow> renderer" where
  "clearTimeout h r = (case h of None \<Rightarrow> r | Some t \<Rightarrow> r\<lparr>timers := removeAll t (timers r)\<rparr>)"

definition processMutationsSoon :: "renderer \<Rightarrow> renderer" where
  "processMutationsSoon r =
     (let r1 = clearTimeout (mutationTimer r) r;
          h = next_timer r1
      in r1\<lparr>timers := timers r1 @ [h], next_timer := Suc h, mutationTimer := Some h,
             idle_callbacks := Suc (idle_callbacks r1)\<rparr>)"

text \<open>
  The loop of lines 288-314. The queue is \<open>kept @ rest\<close>: \<open>kept\<close> are the
  records before index \<open>i\<close> (passed over in this call), \<open>rest\<close> the records
  from \<open>i\<close> on, and \<open>k\<close> counts the iterations. A record that is applied is
  spliced out of the queue before \<open>MUTATIONS\<close> runs. The result is \<open>timedOut\<close>.
\<close>

fun drain ::
  "browser \<Rightarrow> window_env \<Rightarrow> int option \<Rightarrow> drain_clock \<Rightarrow> nat \<Rightarrow> mutation_record list
     \<Rightarrow> mutation_record list \<Rightarrow> renderer \<Rightarrow> (js_error + bool) \<times> renderer" where
  "drain b w threshold c k kept [] r = (Inr False, r)"
| "drain b w threshold c k kept (m # rest) r =
     (if out_of_time c k then (Inr True, r)
      else if exceeds threshold (timestamp m - timeOfLastUserGesture r)
      then drain b w threshold c (Suc k) (kept @ [m]) rest r
      else (case offscreen_skip w (payload m) r of
              (Inl e, r1) \<Rightarrow> (Inl e, r1)
            | (Inr True, r1) \<Rightarrow> drain b w threshold c (Suc k) (kept @ [m]) rest r1
            | (Inr False, r1) \<Rightarrow>
                (case MUTATIONS b (payload m) (r1\<lparr>MUTATION_QUEUE := kept @ rest\<rparr>) of
                   (Inl e, r2) \<Rightarrow> (Inl e, r2)
                 | (Inr u, r2) \<Rightarrow> drain b w threshold c (Suc k) kept rest r2)))"

definition processMutations ::
  "browser \<Rightarrow> window_env \<Rightarrow> int option \<Rightarrow> drain_clock \<Rightarrow> renderer \<Rightarrow> (js_error + unit) \<times> renderer" where
  "processMutations b w threshold c r =
     (let r0 = clearTimeout (mutationTimer r) r in
      case drain b w threshold c 0 [] (MUTATION_QUEUE r0) r0 of
        (Inl e, r1) \<Rightarrow> (Inl e, r1)
      | (Inr timedOut, r1) \<Rightarrow>
          (Inr (), if timedOut \<and> MUTATION_QUEUE r1 \<noteq> [] then processMutationsSoon r1 else r1))"

definition enqueueMutation :: "mutation_record \<Rightarrow> renderer \<Rightarrow> renderer" where
  "enqueueMutation m r = processMutationsSoon (r\<lparr>MUTATION_QUEUE := MUTATION_QUEUE r @ [m]\<rparr>)"

section \<open>The renderer: the event proxy\<close>

definition ELEMENT_EVENTS_TO_PROXY :: "string list" where
  "ELEMENT_EVENTS_TO_PROXY = [''change'', ''click'', ''focus'', ''keydown'', ''input'', ''dblclick'']"

definition WINDOW_EVENTS_TO_PROXY :: "string list" where
  "WINDOW_EVENTS_TO_PROXY = [''hashchange'']"

text \<open>
  A DOM event as \<open>proxyEvent\<close> reads it: its type, its target (\<open>None\<close> when
  \<open>e.target\<close> is \<open>null\<close>) with the target's \<open>__id\<close> and, when the target
  has a \<open>value\<close> property, that value; the two touch lists; and the properties that
  \<open>for (let i in e)\<close> enumerates, in order.
\<close>

record event_target =
  et_id :: "string option"
  et_value :: "string option"

record dom_event =
  ev_type :: string
  ev_target :: "event_target option"
  ev_changedTouches :: "touch list"
  ev_touches :: "touch list"
  ev_props :: "(string \<times> jsval) list"

fun typeof :: "jsval \<Rightarrow> string" where
  "typeof JUndefined = ''undefined''"
| "typeof JNull = ''object''"
| "typeof (JBool b) = ''boolean''"
| "typeof (JNum x) = ''number''"
| "typeof (JStr s) = ''string''"
| "typeof JObject = ''object''"
| "typeof JFunction = ''function''"

definition postToWorker :: "message \<Rightarrow> renderer \<Rightarrow> renderer" where
  "postToWorker m r = r\<lparr>outbox := outbox r @ [m]\<rparr>"

definition number_property :: "dom_event \<Rightarrow> string \<Rightarrow> real option" where
  "number_property e k = (case map_of (ev_props e) k of Some (JNum x) \<Rightarrow> Some x | _ \<Rightarrow> None)"

definition getTouch :: "dom_event \<Rightarrow> touch" where
  "getTouch e =
     (case ev_changedTouches e of
        t # ts \<Rightarrow> t
      | [] \<Rightarrow> (case ev_touches e of
                 t # ts \<Rightarrow> t
               | [] \<Rightarrow> \<lparr>pageX = number_property e ''pageX'', pageY = number_property e ''pageY''\<rparr>))"

text \<open>The loop of lines 128-135; \<open>own\<close> are the names the proxied event already has.\<close>

fun copyProperties :: "string list \<Rightarrow> (string \<times> jsval) list \<Rightarrow> (string \<times> jsval) list" where
  "copyProperties own [] = []"
| "copyProperties own ((i, v) # ps) =
     (if typeof v \<noteq> ''object'' \<and> typeof v \<noteq> ''function'' \<and> i \<noteq> toUpperCase i \<and> i \<notin> set own
      then (i, v) # copyProperties (i # own) ps
      else copyProperties own ps)"

text \<open>Lines 146-148: the distance as the engine computes it, and the test
  \<open>dist < 10\<close>, which is false when \<open>dist\<close> is not a finite number.\<close>

definition touch_distance :: "browser \<Rightarrow> touch \<Rightarrow> touch \<Rightarrow> real option" where
  "touch_distance b touchEnd start =
     Math_sqrt b
       (number_plus b (Math_pow b (number_minus b (pageX touchEnd) (pageX start)) 2)
                      (Math_pow b (number_minus b (pageY touchEnd) (pageY start)) 2))"

definition is_tap :: "browser \<Rightarrow> touch \<Rightarrow> touch \<Rightarrow> bool" where
  "is_tap b touchEnd start =
     (case touch_distance b touchEnd start of Some dst \<Rightarrow> dst < 10 | None \<Rightarrow> False)"

definition serialize_event :: "dom_event \<Rightarrow> proxied_event" where
  "serialize_event e =
     (let tgt = map_option et_id (ev_target e);
          val = (if ev_type e \<in> set [''change'', ''input'']
                 then (case ev_target e of None \<Rightarrow> None | Some t \<Rightarrow> et_value t) else None);
          own = [''type''] @ (if tgt = None then [] else [''target''])
                  @ (if val = None then [] else [''__value''])
      in \<lparr>pe_type = ev_type e, pe_target = tgt, pe_value = val,
          pe_props = copyProperties own (ev_props e)\<rparr>)"

text \<open>
  \<open>proxyEvent(e)\<close> with \<open>now\<close> the reading of \<open>Date.now()\<close>. The value
  returned is \<open>Some False\<close> for \<open>return false\<close> and \<open>None\<close> for
  \<open>undefined\<close>. For a \<open>change\<close> or \<open>input\<close> event without a target,
  \<open>'value' in e.target\<close> is a \<open>TypeError\<close>. \<open>postMessage\<close> copies the event
  when it is called, so the first message keeps its type when line 149 re-labels it.
\<close>

definition proxyEvent ::
  "browser \<Rightarrow> int \<Rightarrow> dom_event \<Rightarrow> renderer \<Rightarrow> (js_error + bool option) \<times> renderer" where
  "proxyEvent b now e r =
     (let r0 = r\<lparr>timeOfLastUserGesture := now\<rparr> in
      if ev_type e = ''click'' \<and> touchStart r0 \<noteq> None then (Inr (Some False), r0)
      else if ev_type e \<in> set [''change'', ''input''] \<and> ev_target e = None then (Inl TypeError, r0)
      else
        (let event = serialize_event e;
             r1 = postToWorker (EventMessage event) r0
         in if ev_type e = ''touchstart'' then (Inr None, r1\<lparr>touchStart := Some (getTouch e)\<rparr>)
            else if ev_type e = ''touchend'' then
              (case touchStart r1 of
                 None \<Rightarrow> (Inr None, r1)
               | Some start \<Rightarrow>
                   (if is_tap b (getTouch e) start
                    then (Inr None, postToWorker (EventMessage (event\<lparr>pe_type := ''click''\<rparr>)) r1)
                    else (Inr None, r1)))
            else (Inr None, r1)))"

text \<open>
  Lines 64-69 register \<open>proxyEvent\<close> on the root for the element events and on the
  global scope for the window events, and for no other type. An event dispatched inside
  the root (or on the window) calls the proxy when its type is one of them; an exception
  in a listener does not stop the later events.
\<close>

definition listens :: "string \<Rightarrow> bool" where
  "listens ty = (ty \<in> set ELEMENT_EVENTS_TO_PROXY \<or> ty \<in> set WINDOW_EVENTS_TO_PROXY)"

definition dispatchEvent :: "browser \<Rightarrow> int \<Rightarrow> dom_event \<Rightarrow> renderer \<Rightarrow> renderer" where
  "dispatchEvent b now e r = (if listens (ev_type e) then snd (proxyEvent b now e r) else r)"

fun dispatchEvents :: "browser \<Rightarrow> (int \<times> dom_event) list \<Rightarrow> renderer \<Rightarrow> renderer" where
  "dispatchEvents b [] r = r"
| "dispatchEvents b ((now, e) # es) r = dispatchEvents b es (dispatchEvent b now e r)"

text \<open>
  The state in which the closure leaves its variables when it has run (lines 44, 73, 75,
  252-256 and 435-438) at time \<open>now\<close>, for a document \<open>d\<close> with root
  \<open>rt\<close>: nothing is bound, queued or scheduled, \<open>touchStart\<close> is
  \<open>undefined\<close>, and the \<open>init\<close> message has been posted.
\<close>

definition renderer_init :: "document \<Rightarrow> addr \<Rightarrow> int \<Rightarrow> string \<Rightarrow> renderer" where
  "renderer_init d rt now href =
     \<lparr>doc = d, NODES = Map.empty, root = rt, timeOfLastUserGesture = now, touchStart = None,
      outbox = [InitMessage href], MUTATION_QUEUE = [], mutationTimer = None, timers = [],
      next_timer = 0, idle_callbacks = 0, windowSizeCache_height = None,
      windowSizeCache_width = None\<rparr>"

section \<open>amp-script.js: the sanitizer wrapper\<close>





section \<open>Frame of the document operations\<close>

text \<open>The state \<open>r'\<close> differs from \<open>r\<close> at most in the document and the
  identity map.\<close>

definition only_dom_changed :: "renderer \<Rightarrow> renderer \<Rightarrow> bool" where
  "only_dom_changed r r' = (r' = r\<lparr>doc := doc r', NODES := NODES r'\<rparr>)"

section \<open>Notions used to state the claims\<close>

text \<open>The latency test of lines 297-298 for a record, with \<open>gesture\<close> the gesture
  clock; and whether a record is a text or attribute change (line 304).\<close>

definition latency_exceeded :: "int option \<Rightarrow> int \<Rightarrow> mutation_record \<Rightarrow> bool" where
  "latency_exceeded threshold gesture m = exceeds threshold (timestamp m - gesture)"

definition text_or_attribute :: "mutation_record \<Rightarrow> bool" where
  "text_or_attribute m =
     (mutation_type (payload m) = ''characterData'' \<or> mutation_type (payload m) = ''attributes'')"

text \<open>The gesture clock after each call of the proxy in a run of calls, each with its
  reading of \<open>Date.now()\<close>.\<close>

fun gesture_clock_trace :: "browser \<Rightarrow> (int \<times> dom_event) list \<Rightarrow> renderer \<Rightarrow> int list" where
  "gesture_clock_trace b [] r = []"
| "gesture_clock_trace b ((now, e) # es) r =
     timeOfLastUserGesture (snd (proxyEvent b now e r))
       # gesture_clock_trace b es (snd (proxyEvent b now e r))"

text \<open>The events that the proxy posts to the worker: those of a type it listens for,
  except a \<open>change\<close> or \<open>input\<close> event without a target, on which it throws.\<close>

definition forwarded :: "dom_event \<Rightarrow> bool" where
  "forwarded e =
     (listens (ev_type e) \<and> \<not> (ev_type e \<in> set [''change'', ''input''] \<and> ev_target e = None))"

text \<open>Two states with the same document, identity map and root.\<close>

definition same_dom :: "renderer \<Rightarrow> renderer \<Rightarrow> bool" where
  "same_dom r r' = (doc r' = doc r \<and> NODES r' = NODES r \<and> root r' = root r)"


text \<open>The state with the nodes of the document replaced.\<close>

definition with_nodes :: "renderer \<Rightarrow> (addr \<Rightarrow> dnode) \<Rightarrow> renderer" where
  "with_nodes r N = r\<lparr>doc := (doc r)\<lparr>nodes := N\<rparr>\<rparr>"


section \<open>Concrete inputs\<close>

text \<open>An \<open>amp-script\<close> element of fixed layout, 500 high, hydrated, with a running
  worker and no user activation.\<close>

definition ex_amp_script :: amp_script where
  "ex_amp_script = \<lparr>classList = [''i-amphtml-hydrated''], workerDom = Some \<lparr>terminated = False\<rparr>,
     userActive = False, getLayout = ''fixed'', layoutBoxHeight = 500, vsync_queue = []\<rparr>"

definition ex_isLayoutSizeDefined :: "layout \<Rightarrow> bool" where
  "ex_isLayoutSizeDefined l = (l \<noteq> ''container'')"

text \<open>
  A renderer whose root (node 0, a \<open>DIV\<close>) has three children: the text node 1 with
  data \<open>old\<close>, bound to the id \<open>t\<close>, and the empty \<open>P\<close> elements 2 and
  3, bound to \<open>a\<close> and \<open>b\<close>; nothing is queued or scheduled.
\<close>

definition ex_document :: document where
  "ex_document =
     \<lparr>nodes = (\<lambda>a. blank_node)
        (0 := blank_node\<lparr>nodeType := ELEMENT_NODE, nodeName := ''DIV'', childNodes := [1, 2, 3]\<rparr>,
         1 := blank_node\<lparr>nodeType := TEXT_NODE, nodeName := ''#text'', nodeValue := ''old'',
                parentNode := Some 0, node_id := Some ''t''\<rparr>,
         2 := blank_node\<lparr>nodeType := ELEMENT_NODE, nodeName := ''P'',
                parentNode := Some 0, node_id := Some ''a''\<rparr>,
         3 := blank_node\<lparr>nodeType := ELEMENT_NODE, nodeName := ''P'',
                parentNode := Some 0, node_id := Some ''b''\<rparr>),
      next_addr = 4\<rparr>"

definition ex_renderer :: renderer where
  "ex_renderer =
     \<lparr>doc = ex_document, NODES = [''t'' \<mapsto> 1, ''a'' \<mapsto> 2, ''b'' \<mapsto> 3], root = 0,
      timeOfLastUserGesture = 0, touchStart = None, outbox = [], MUTATION_QUEUE = [],
      mutationTimer = None, timers = [], next_timer = 0, idle_callbacks = 0,
      windowSizeCache_height = None, windowSizeCache_width = None\<rparr>"

text \<open>The same document with a detached \<open>DIV\<close> (node 4) to serve as the
  sanitizer's wrapper and a detached \<open>SCRIPT\<close> element (node 5).\<close>

definition ex_sanitizer_document :: document where
  "ex_sanitizer_document =
     ex_document\<lparr>nodes := (nodes ex_document)
        (4 := blank_node\<lparr>nodeType := ELEMENT_NODE, nodeName := ''DIV''\<rparr>,
         5 := blank_node\<lparr>nodeType := ELEMENT_NODE, nodeName := ''SCRIPT''\<rparr>),
      next_addr := 6\<rparr>"

text \<open>The serialized root as a record's target: \<open>getNode\<close> resolves a node
  object named \<open>BODY\<close> to the root.\<close>

definition ex_root_ref :: noderef where
  "ex_root_ref = ObjRef (Skeleton ELEMENT_NODE ''BODY'' [] [] [] [] [] [])"

text \<open>A \<open>script\<close> element with one text child, and a \<open>span\<close> without children.\<close>

definition ex_script_skeleton :: skeleton where
  "ex_script_skeleton =
     Skeleton ELEMENT_NODE ''script'' [] [] []
       [Skeleton TEXT_NODE ''#text'' [] [] [] [] ''alert(1)'' ''n2''] [] ''n1''"

definition ex_span_skeleton :: skeleton where
  "ex_span_skeleton = Skeleton ELEMENT_NODE ''span'' [] [] [(''title'', ''hello'')] [] [] ''n3''"

definition ex_styled_skeleton :: skeleton where
  "ex_styled_skeleton = Skeleton ELEMENT_NODE ''div'' [] [(''color'', ''red'')] [] [] [] ''n4''"

text \<open>A sanitizer that accepts everything, one that removes every child of the node it is
  called on, one that throws whenever it is called, and one that removes every attribute of
  the node it is called on.\<close>

definition purify_nothing :: purifier where
  "purify_nothing a d = Inr d"

definition purify_children :: purifier where
  "purify_children a d = Inr (fold detach (childNodes (nodes d a)) d)"

definition purify_throws :: purifier where
  "purify_throws a d = Inl TypeError"

definition purify_attributes :: purifier where
  "purify_attributes a d = Inr (upd_node a (\<lambda>n. n\<lparr>attributes := []\<rparr>) d)"

text \<open>
  A browser for the concrete inputs, with the sanitizer \<open>purify\<close>: it accepts the
  names made of ASCII letters, digits and hyphens, its properties are plain data
  properties (an assignment is stored in \<open>props\<close> and does nothing else), and its
  arithmetic is the one of the reals.
\<close>

definition ex_valid_name :: "string \<Rightarrow> bool" where
  "ex_valid_name s =
     (s \<noteq> [] \<and> list_all (\<lambda>c. c \<in> set
        ''abcdefghijklmnopqrstuvwxyzABCDEFGHIJKLMNOPQRSTUVWXYZ0123456789-'') s)"

definition ex_assign_property :: "addr \<Rightarrow> string \<Rightarrow> string \<Rightarrow> document \<Rightarrow> js_error + document" where
  "ex_assign_property a name v d =
     Inr (upd_node a (\<lambda>n. n\<lparr>props := AList.update name v (props n)\<rparr>) d)"

definition lift2 :: "(real \<Rightarrow> real \<Rightarrow> real) \<Rightarrow> real option \<Rightarrow> real option \<Rightarrow> real option" where
  "lift2 f x y = (case (x, y) of (Some u, Some v) \<Rightarrow> Some (f u v) | _ \<Rightarrow> None)"

definition browser_with :: "purifier \<Rightarrow> browser" where
  "browser_with purify =
     \<lparr>DOMPurify_sanitize = purify, valid_element_name = ex_valid_name,
      valid_attribute_name = ex_valid_name, assign_property = ex_assign_property,
      number_minus = lift2 (-), number_plus = lift2 (+),
      Math_pow = (\<lambda>x y. if y = 2 then map_option (\<lambda>u. u * u) x else None),
      Math_sqrt = map_option sqrt\<rparr>"

text \<open>A window of 800 by 600 in which every node lies above the viewport, and one in which
  every node is inside it.\<close>

definition ex_window_offscreen :: window_env where
  "ex_window_offscreen =
     \<lparr>getBoundingClientRect = (\<lambda>d a. \<lparr>bbox_top = -100, bbox_left = 0, bbox_bottom = -50, bbox_right = 10\<rparr>),
      innerHeight = 600, innerWidth = 800\<rparr>"

definition ex_window_onscreen :: window_env where
  "ex_window_onscreen =
     \<lparr>getBoundingClientRect = (\<lambda>d a. \<lparr>bbox_top = 0, bbox_left = 0, bbox_bottom = 10, bbox_right = 10\<rparr>),
      innerHeight = 600, innerWidth = 800\<rparr>"

text \<open>A call from the timer (no deadline object) during which the clock does not advance.\<close>

definition ex_clock :: drain_clock where
  "ex_clock = \<lparr>deadline_timeRemaining = None, date_now = (\<lambda>k. 0)\<rparr>"

definition ex_touch_event :: "string \<Rightarrow> real \<Rightarrow> real \<Rightarrow> dom_event" where
  "ex_touch_event ty x y =
     \<lparr>ev_type = ty, ev_target = Some \<lparr>et_id = Some ''t'', et_value = None\<rparr>,
      ev_changedTouches = [\<lparr>pageX = Some x, pageY = Some y\<rparr>], ev_touches = [], ev_props = []\<rparr>"

definition ex_click_event :: dom_event where
  "ex_click_event =
     \<lparr>ev_type = ''click'', ev_target = Some \<lparr>et_id = Some ''t'', et_value = None\<rparr>,
      ev_changedTouches = [], ev_touches = [], ev_props = []\<rparr>"

definition message_type :: "message \<Rightarrow> string" where
  "message_type m = (case m of EventMessage ev \<Rightarrow> pe_type ev | InitMessage l \<Rightarrow> ''init'')"

text \<open>Three records: one stamped 5000 ms after the gesture clock of \<open>ex_renderer\<close>,
  and a text change and a property change stamped 10 ms after it.\<close>

definition ex_late_record :: mutation_record where
  "ex_late_record = \<lparr>timestamp = 5000, payload = CharacterData (IdRef ''t'') ''late'' ''old''\<rparr>"

definition ex_text_record :: mutation_record where
  "ex_text_record = \<lparr>timestamp = 10, payload = CharacterData (IdRef ''t'') ''new'' ''old''\<rparr>"

definition ex_property_record :: mutation_record where
  "ex_property_record = \<lparr>timestamp = 10, payload = Properties (IdRef ''a'') ''value'' ''x'' []\<rparr>"

section \<open>Theorems\<close>

subsection \<open>What materializing and applying records leave unchanged\<close>

lemma only_dom_changed_refl [simp]: "only_dom_changed r r"
  by (simp add: only_dom_changed_def)

lemma only_dom_changed_trans:
  "only_dom_changed r r' \<Longrightarrow> only_dom_changed r' r'' \<Longrightarrow> only_dom_changed r r''"
  unfolding only_dom_changed_def
  by (metis (no_types, lifting) renderer.surjective renderer.update_convs(1,2))

lemma only_dom_changed_doc [simp]: "only_dom_changed r (r\<lparr>doc := d\<rparr>)"
  by (simp add: only_dom_changed_def)

lemma only_dom_changed_from_doc: "only_dom_changed (r\<lparr>doc := d\<rparr>) r' \<Longrightarrow> only_dom_changed r r'"
  by (rule only_dom_changed_trans [OF only_dom_changed_doc])

lemma only_dom_changed_to_doc: "only_dom_changed r r' \<Longrightarrow> only_dom_changed r (r'\<lparr>doc := d\<rparr>)"
  by (rule only_dom_changed_trans [OF _ only_dom_changed_doc])

lemma only_dom_changed_bind [simp]: "only_dom_changed r (bindNodeToSkeletonId a i r)"
  by (simp add: only_dom_changed_def bindNodeToSkeletonId_def)

lemma sanitize_and_bind_frame:
  "only_dom_changed r r' \<Longrightarrow> only_dom_changed r (snd (sanitize_and_bind b s a i r'))"
  by (auto simp: sanitize_and_bind_def split: sum.splits
      intro: only_dom_changed_trans only_dom_changed_to_doc
        only_dom_changed_trans [OF only_dom_changed_to_doc only_dom_changed_bind])

lemma createNode_frame:
  "only_dom_changed r (snd (createNode b sk s r))"
  "only_dom_changed r (snd (createChildren b a sks r))"
proof (induction b sk s r and b a sks r rule: createNode_createChildren.induct)
  case (1 b ty nm cls sty atts chs dat i sanitize r)
  show ?case
  proof (cases "ty = TEXT_NODE")
    case True
    then show ?thesis
      by (simp add: sanitize_and_bind_frame split: prod.splits)
  next
    case notText: False
    show ?thesis
    proof (cases "ty = ELEMENT_NODE")
      case False
      with notText show ?thesis by simp
    next
      case True
      show ?thesis
      proof (cases "createElement b nm (doc r)")
        case (Inl e)
        with notText \<open>ty = ELEMENT_NODE\<close> show ?thesis by simp
      next
        case (Inr nd)
        obtain node d0 where nd: "nd = (node, d0)"
          by (cases nd)
        note ce = Inr [unfolded nd]
        define d1 where "d1 = (if cls \<noteq> []
                        then upd_node node (\<lambda>n. n\<lparr>attributes := AList.update ''class'' cls (attributes n)\<rparr>) d0
                        else d0)"
        show ?thesis
        proof (cases "sty \<noteq> []")
          case True
          with notText \<open>ty = ELEMENT_NODE\<close> ce show ?thesis by (simp add: Let_def)
        next
          case noStyle: False
          show ?thesis
          proof (cases "setAttributes b node atts d1")
            case (Inl e)
            with notText \<open>ty = ELEMENT_NODE\<close> ce noStyle show ?thesis
              by (simp add: Let_def d1_def)
          next
            case inr: (Inr d2)
            have ih: "only_dom_changed (r\<lparr>doc := d2\<rparr>) (snd (createChildren b node chs (r\<lparr>doc := d2\<rparr>)))"
              using "1.IH" [OF notText \<open>ty = ELEMENT_NODE\<close> ce refl d1_def _ inr] noStyle
              by simp
            then have "only_dom_changed r (snd (createChildren b node chs (r\<lparr>doc := d2\<rparr>)))"
              by (rule only_dom_changed_from_doc)
            with notText \<open>ty = ELEMENT_NODE\<close> ce noStyle inr show ?thesis
              by (auto simp: Let_def d1_def [symmetric] sanitize_and_bind_frame split: prod.splits sum.splits)
          qed
        qed
      qed
    qed
  qed
next
  case (2 b node r)
  then show ?case by simp
next
  case (3 b node c cs r)
  obtain res r' where cn: "createNode b c (\<not> SANITIZE_IN_PLACE) r = (res, r')"
    by (cases "createNode b c (\<not> SANITIZE_IN_PLACE) r")
  have f1: "only_dom_changed r r'"
    using "3.IH"(1) cn by simp
  show ?case
  proof (cases res)
    case (Inl e)
    with cn f1 show ?thesis by simp
  next
    case (Inr child)
    show ?thesis
    proof (cases "appendChild node child (doc r')")
      case (Inl e)
      with cn f1 Inr show ?thesis by simp
    next
      case inr: (Inr d)
      have "only_dom_changed (r'\<lparr>doc := d\<rparr>) (snd (createChildren b node cs (r'\<lparr>doc := d\<rparr>)))"
        using "3.IH"(2) [OF cn [symmetric] _ inr] Inr by simp
      then have "only_dom_changed r (snd (createChildren b node cs (r'\<lparr>doc := d\<rparr>)))"
        using f1 only_dom_changed_from_doc only_dom_changed_trans by blast
      with cn Inr inr show ?thesis by simp
    qed
  qed
qed

lemma removeNodes_frame: "only_dom_changed r (snd (removeNodes parent xs r))"
proof (induction xs arbitrary: r)
  case Nil
  show ?case by simp
next
  case (Cons x xs)
  have "only_dom_changed r (snd (removeNodes parent xs (r\<lparr>doc := d\<rparr>)))" for d
    by (rule only_dom_changed_from_doc [OF Cons.IH])
  then show ?case
    by (auto split: option.splits sum.splits)
qed

lemma addNodes_frame: "only_dom_changed r (snd (addNodes b parent ns sks r))"
proof (induction sks arbitrary: r)
  case Nil
  show ?case by simp
next
  case (Cons sk sks)
  obtain res r' where step:
    "(case getNode r (ObjRef sk) of Some n \<Rightarrow> (Inr n, r) | None \<Rightarrow> createNode b sk True r) = (res, r')"
    by (cases "case getNode r (ObjRef sk) of Some n \<Rightarrow> (Inr n, r) | None \<Rightarrow> createNode b sk True r")
  have f1: "only_dom_changed r r'"
    using step createNode_frame(1) [of r b sk True]
    by (auto split: option.splits)
  have f2: "only_dom_changed r (snd (addNodes b parent ns sks (r'\<lparr>doc := d\<rparr>)))" for d
    using f1 Cons.IH only_dom_changed_from_doc only_dom_changed_trans by blast
  show ?case
    using step f1 f2 by (auto split: option.splits sum.splits)
qed

lemma MUTATIONS_frame: "only_dom_changed r (snd (MUTATIONS b m r))"
proof (cases m)
  case (ChildList target removed added ps ns)
  obtain res r' where rn: "removeNodes (getNode r target) (rev removed) r = (res, r')"
    by (cases "removeNodes (getNode r target) (rev removed) r")
  have "only_dom_changed r r'"
    using removeNodes_frame [of r "getNode r target" "rev removed"] rn by simp
  then show ?thesis
    using ChildList rn addNodes_frame [of r' b "getNode r target" ns added]
    by (auto simp: MUTATIONS_childList_def Let_def split: sum.splits intro: only_dom_changed_trans)
next
  case (Attributes target name v ov)
  then show ?thesis
    by (auto simp: MUTATIONS_attributes_def split: option.splits sum.splits)
next
  case (CharacterData target v ov)
  then show ?thesis
    by (auto simp: MUTATIONS_characterData_def split: option.splits)
next
  case (Properties target name v ov)
  then show ?thesis
    by (auto simp: MUTATIONS_properties_def Let_def split: option.splits sum.splits)
qed

lemma MUTATIONS_queue: "MUTATION_QUEUE (snd (MUTATIONS b m r)) = MUTATION_QUEUE r"
  using MUTATIONS_frame [of r b m]
  by (metis (no_types, lifting) only_dom_changed_def renderer.select_convs(7) renderer.surjective renderer.update_convs(1,2))

lemma MUTATIONS_clock: "timeOfLastUserGesture (snd (MUTATIONS b m r)) = timeOfLastUserGesture r"
  using MUTATIONS_frame [of r b m]
  by (metis (no_types, lifting) only_dom_changed_def renderer.select_convs(4) renderer.surjective renderer.update_convs(1,2))

subsection \<open>The outcome of a record depends on the document and the identity map only\<close>

lemma same_dom_refl [simp]: "same_dom r r"
  by (simp add: same_dom_def)

lemma same_dom_sym: "same_dom r r' \<Longrightarrow> same_dom r' r"
  by (simp add: same_dom_def)










subsection \<open>The drain loop\<close>

lemma isElementInViewport_frame:
  "MUTATION_QUEUE (snd (isElementInViewport w a r)) = MUTATION_QUEUE r
   \<and> timeOfLastUserGesture (snd (isElementInViewport w a r)) = timeOfLastUserGesture r"
  by (auto simp: isElementInViewport_def cached_height_def cached_width_def Let_def
      split: option.splits prod.splits if_splits)

lemma offscreen_skip_frame:
  "MUTATION_QUEUE (snd (offscreen_skip w m r)) = MUTATION_QUEUE r
   \<and> timeOfLastUserGesture (snd (offscreen_skip w m r)) = timeOfLastUserGesture r"
proof (cases "getNode r (mutation_target m)")
  case None
  then show ?thesis by (simp add: offscreen_skip_def)
next
  case (Some t)
  obtain res r' where v: "isElementInViewport w t r = (res, r')"
    by (cases "isElementInViewport w t r")
  with isElementInViewport_frame [of w t r] Some show ?thesis
    by (auto simp: offscreen_skip_def split: sum.splits)
qed


lemma drain_keeps:
  assumes "MUTATION_QUEUE r = kept @ rest" and "timeOfLastUserGesture r = g"
  shows "timeOfLastUserGesture (snd (drain b w thr c k kept rest r)) = g
    \<and> subseq (MUTATION_QUEUE (snd (drain b w thr c k kept rest r))) (kept @ rest)
    \<and> filter (latency_exceeded thr g) (MUTATION_QUEUE (snd (drain b w thr c k kept rest r)))
        = filter (latency_exceeded thr g) (kept @ rest)"
  using assms
proof (induction rest arbitrary: k kept r)
  case Nil
  then show ?case by simp
next
  case (Cons m rest)
  let ?D = "drain b w thr c k kept (m # rest) r"
  show ?case
  proof (cases "out_of_time c k")
    case True
    with Cons.prems show ?thesis by simp
  next
    case inTime: False
    show ?thesis
    proof (cases "exceeds thr (timestamp m - timeOfLastUserGesture r)")
      case True
      have "?D = drain b w thr c (Suc k) (kept @ [m]) rest r"
        using inTime True by simp
      with Cons.IH [of r "kept @ [m]" "Suc k"] Cons.prems show ?thesis by simp
    next
      case notLate: False
      obtain res r1 where os: "offscreen_skip w (payload m) r = (res, r1)"
        by (cases "offscreen_skip w (payload m) r")
      have q1: "MUTATION_QUEUE r1 = kept @ m # rest" and g1: "timeOfLastUserGesture r1 = g"
        using offscreen_skip_frame [of w "payload m" r] os Cons.prems by simp_all
      show ?thesis
      proof (cases res)
        case (Inl e)
        with inTime notLate os q1 g1 show ?thesis by simp
      next
        case (Inr skip)
        show ?thesis
        proof (cases skip)
          case True
          have "?D = drain b w thr c (Suc k) (kept @ [m]) rest r1"
            using inTime notLate os Inr True by simp
          with Cons.IH [of r1 "kept @ [m]" "Suc k"] q1 g1 show ?thesis by simp
        next
          case False
          let ?r1 = "r1\<lparr>MUTATION_QUEUE := kept @ rest\<rparr>"
          obtain res2 r2 where ap: "MUTATIONS b (payload m) ?r1 = (res2, r2)"
            by (cases "MUTATIONS b (payload m) ?r1")
          have q2: "MUTATION_QUEUE r2 = kept @ rest" and g2: "timeOfLastUserGesture r2 = g"
            using MUTATIONS_queue [of b "payload m" ?r1] MUTATIONS_clock [of b "payload m" ?r1]
              ap g1 by simp_all
          have nl: "\<not> latency_exceeded thr g m"
            using notLate Cons.prems by (simp add: latency_exceeded_def)
          have sub: "subseq (kept @ rest) (kept @ m # rest)"
            by (auto simp: subseq_append')
          show ?thesis
          proof (cases res2)
            case (Inl e)
            have "?D = (Inl e, r2)"
              using inTime notLate os Inr False ap Inl by simp
            with q2 g2 nl sub show ?thesis by simp
          next
            case inr: (Inr u)
            have "?D = drain b w thr c (Suc k) kept rest r2"
              using inTime notLate os Inr False ap inr by simp
            with Cons.IH [of r2 kept "Suc k"] q2 g2 nl show ?thesis
              using sub subseq_order.order_trans by auto
          qed
        qed
      qed
    qed
  qed
qed





lemma clearTimeout_frame:
  "MUTATION_QUEUE (clearTimeout h r) = MUTATION_QUEUE r
   \<and> timeOfLastUserGesture (clearTimeout h r) = timeOfLastUserGesture r"
  by (simp add: clearTimeout_def split: option.splits)

lemma processMutationsSoon_frame:
  "MUTATION_QUEUE (processMutationsSoon r) = MUTATION_QUEUE r
   \<and> timeOfLastUserGesture (processMutationsSoon r) = timeOfLastUserGesture r"
  by (simp add: processMutationsSoon_def Let_def clearTimeout_frame)

lemma processMutations_drain:
  "\<exists>res r1. drain b w thr c 0 [] (MUTATION_QUEUE r) (clearTimeout (mutationTimer r) r) = (res, r1)
     \<and> MUTATION_QUEUE (snd (processMutations b w thr c r)) = MUTATION_QUEUE r1
     \<and> timeOfLastUserGesture (snd (processMutations b w thr c r)) = timeOfLastUserGesture r1
     \<and> (fst (processMutations b w thr c r) = Inr () \<longrightarrow> res = Inr False \<or> res = Inr True)"
  by (cases "drain b w thr c 0 [] (MUTATION_QUEUE r) (clearTimeout (mutationTimer r) r)")
    (auto simp: processMutations_def Let_def clearTimeout_frame processMutationsSoon_frame
      split: sum.splits)

lemma processMutations_clock:
  "timeOfLastUserGesture (snd (processMutations b w thr c r)) = timeOfLastUserGesture r"
proof -
  obtain res r1 where
    d: "drain b w thr c 0 [] (MUTATION_QUEUE r) (clearTimeout (mutationTimer r) r) = (res, r1)"
    and g: "timeOfLastUserGesture (snd (processMutations b w thr c r)) = timeOfLastUserGesture r1"
    using processMutations_drain [of b w thr c r] by blast
  have "timeOfLastUserGesture r1 = timeOfLastUserGesture r"
    using drain_keeps [of "clearTimeout (mutationTimer r) r" "[]" "MUTATION_QUEUE r"
        "timeOfLastUserGesture r" b w thr c 0] d
    by (simp add: clearTimeout_frame)
  with g show ?thesis by simp
qed





subsection \<open>The materializer and the sanitizer wrapper\<close>










lemma inclusive_ancestor_of_root:
  "parentNode (nodes d b) = None \<Longrightarrow> inclusive_ancestor n d a b = (a = b)"
  by (cases n) auto






subsection \<open>The event proxy\<close>

lemma proxyEvent_clock: "timeOfLastUserGesture (snd (proxyEvent b now e r)) = now"
  by (simp add: proxyEvent_def Let_def postToWorker_def split: option.splits)

lemma gesture_clock_trace_eq: "gesture_clock_trace b es r = map fst es"
  by (induction es arbitrary: r) (auto simp: proxyEvent_clock)

lemma dispatchEvent_untouched:
  assumes "touchStart r = None"
  shows "touchStart (dispatchEvent b now e r) = None"
    and "outbox (dispatchEvent b now e r)
           = outbox r @ (if forwarded e then [EventMessage (serialize_event e)] else [])"
  using assms
  by (auto simp: dispatchEvent_def forwarded_def listens_def proxyEvent_def Let_def
      postToWorker_def ELEMENT_EVENTS_TO_PROXY_def WINDOW_EVENTS_TO_PROXY_def)

lemma dispatchEvents_untouched:
  "touchStart r = None \<Longrightarrow>
     touchStart (dispatchEvents b es r) = None
     \<and> outbox (dispatchEvents b es r)
         = outbox r @ map (\<lambda>(now, e). EventMessage (serialize_event e))
                        (filter (\<lambda>(now, e). forwarded e) es)"
proof (induction es arbitrary: r)
  case Nil
  then show ?case by simp
next
  case (Cons x es)
  obtain now e where x: "x = (now, e)"
    by (cases x)
  note s = dispatchEvent_untouched [OF Cons.prems, of b now e]
  from Cons.IH [OF s(1)] s(2) x show ?case
    by simp
qed

lemma dispatchEvent_clock:
  "timeOfLastUserGesture (dispatchEvent b now e r)
     = (if listens (ev_type e) then now else timeOfLastUserGesture r)"
  by (simp add: dispatchEvent_def proxyEvent_clock)

subsection \<open>Records with confined effects\<close>

lemma getNode_with_nodes [simp]: "getNode (with_nodes r N) x = getNode r x"
  by (simp add: getNode_def with_nodes_def split: noderef.splits)

lemma with_nodes_simps [simp]:
  "nodes (doc (with_nodes r N)) = N"
  "with_nodes (with_nodes r N) N' = with_nodes r N'"
  "with_nodes r (nodes (doc r)) = r"
  by (simp_all add: with_nodes_def)









subsection \<open>Unfolding the concrete inputs\<close>

lemmas ex_defs = ex_renderer_def ex_document_def ex_sanitizer_document_def blank_node_def
  TEXT_NODE_def ELEMENT_NODE_def SANITIZE_IN_PLACE_def
  purify_nothing_def purify_children_def purify_throws_def purify_attributes_def
  ex_script_skeleton_def ex_span_skeleton_def ex_styled_skeleton_def ex_root_ref_def
  browser_with_def ex_valid_name_def ex_assign_property_def lift2_def

lemmas dom_defs = createElement_def createTextNode_def upd_node_def setAttribute_def
  appendChild_def insertBefore_def detach_def removeChild_def firstChild_def
  sanitize_and_bind_def bindNodeToSkeletonId_def getNode_def set_nodeValue_def
  toUpperCase_def toLowerCase_def lower_of_upper_def inclusive_ancestor_of_root

lemmas queue_defs = processMutations_def clearTimeout_def processMutationsSoon_def
  enqueueMutation_def out_of_time_def exceeds_def latency_exceeded_def text_or_attribute_def
  offscreen_skip_def isElementInViewport_def cached_height_def cached_width_def
  MUTATIONS_characterData_def MUTATIONS_attributes_def MUTATIONS_properties_def
  MUTATIONS_childList_def
  ex_clock_def ex_window_offscreen_def ex_window_onscreen_def

lemmas rec_defs = ex_late_record_def ex_text_record_def ex_property_record_def

lemmas event_defs = dispatchEvent_def listens_def ELEMENT_EVENTS_TO_PROXY_def
  WINDOW_EVENTS_TO_PROXY_def forwarded_def proxyEvent_def postToWorker_def serialize_event_def
  getTouch_def ex_touch_event_def ex_click_event_def message_type_def

subsection \<open>The claims\<close>

text \<open>
  C1. A flush batch is admitted (its flush is queued) for certain in the hydrating phase.
  In the mutating phase, with the worker created, it is admitted exactly when the
  user-activation tracker is active, or the layout is size-defined and the layout box is at
  most 300 high; when it is not admitted the pump returns normally, no flush is queued, the
  worker is terminated, and the class list contains \<open>i-amphtml-broken\<close> and no longer
  \<open>i-amphtml-hydrated\<close>.
\<close>

theorem mutationPump_admission:
  "flush_queued s (mutationPump sd Phase_HYDRATING s)
    \<and> (flush_queued s (mutationPump sd Phase_MUTATING s)
         \<longleftrightarrow> (userActive s \<or> (sd (getLayout s) \<and> layoutBoxHeight s \<le> 300)))
    \<and> (workerDom s \<noteq> None
         \<and> \<not> (userActive s \<or> (sd (getLayout s) \<and> layoutBoxHeight s \<le> 300)) \<longrightarrow>
         (\<exists>s'. mutationPump sd Phase_MUTATING s = Inr s'
            \<and> vsync_queue s' = vsync_queue s
            \<and> worker_terminated s'
            \<and> ''i-amphtml-broken'' \<in> set (classList s')
            \<and> ''i-amphtml-hydrated'' \<notin> set (classList s')))"
  by (auto simp: mutationPump_def allowMutation_def flush_queued_def worker_terminated_def
      Phase_HYDRATING_def Phase_MUTATING_def MAX_FREE_MUTATION_HEIGHT_def
      classList_add_def classList_remove_def Let_def split: option.splits)

theorem mutationPump_admission_witness:
  "flush_queued ex_amp_script (mutationPump ex_isLayoutSizeDefined Phase_HYDRATING ex_amp_script)
    \<and> \<not> flush_queued ex_amp_script (mutationPump ex_isLayoutSizeDefined Phase_MUTATING ex_amp_script)
    \<and> (\<exists>s'. mutationPump ex_isLayoutSizeDefined Phase_MUTATING ex_amp_script = Inr s'
          \<and> vsync_queue s' = []
          \<and> worker_terminated s'
          \<and> ''i-amphtml-broken'' \<in> set (classList s')
          \<and> ''i-amphtml-hydrated'' \<notin> set (classList s'))"
  using mutationPump_admission [of ex_amp_script ex_isLayoutSizeDefined]
  by (simp add: ex_amp_script_def ex_isLayoutSizeDefined_def)

text \<open>
  C2. A record whose target does not resolve is never applied, but it is not recoverable
  either: an attributes, characterData or properties record ends in a \<open>TypeError\<close>
  with the state unchanged, and so does a childList record that removes nodes; a childList
  record that only adds nodes ends in an exception: a \<open>TypeError\<close> with the state
  unchanged when the first added node resolves, and otherwise, after materializing the first
  added node, the exception of the materializer or a \<open>TypeError\<close>, in the state
  the materializer has left; a childList record that adds and removes nothing returns
  normally and changes nothing.
\<close>

theorem unresolved_target:
  "getNode r target = None \<longrightarrow>
     MUTATIONS b (Attributes target name v ov) r = (Inl TypeError, r)
   \<and> MUTATIONS b (CharacterData target v ov) r = (Inl TypeError, r)
   \<and> MUTATIONS b (Properties target name v ov) r = (Inl TypeError, r)
   \<and> (removed \<noteq> [] \<longrightarrow>
        MUTATIONS b (ChildList target removed added ps ns) r = (Inl TypeError, r))
   \<and> (added \<noteq> [] \<longrightarrow>
        (\<exists>e. fst (MUTATIONS b (ChildList target [] added ps ns) r) = Inl e))
   \<and> MUTATIONS b (ChildList target [] [] ps ns) r = (Inr (), r)
   \<and> (getNode r (ObjRef sk) = Some n \<longrightarrow>
        MUTATIONS b (ChildList target [] (sk # sks) ps ns) r = (Inl TypeError, r))
   \<and> (getNode r (ObjRef sk) = None \<longrightarrow>
        MUTATIONS b (ChildList target [] (sk # sks) ps ns) r
          = (case createNode b sk True r of
               (Inl e, r') \<Rightarrow> (Inl e, r')
             | (Inr n, r') \<Rightarrow> (Inl TypeError, r')))"
proof (intro impI conjI)
  assume un: "getNode r target = None"
  show "MUTATIONS b (Attributes target name v ov) r = (Inl TypeError, r)"
    using un by (simp add: MUTATIONS_attributes_def)
  show "MUTATIONS b (CharacterData target v ov) r = (Inl TypeError, r)"
    using un by (simp add: MUTATIONS_characterData_def)
  show "MUTATIONS b (Properties target name v ov) r = (Inl TypeError, r)"
    using un by (simp add: MUTATIONS_properties_def)
  show "MUTATIONS b (ChildList target [] [] ps ns) r = (Inr (), r)"
    by (simp add: MUTATIONS_childList_def)
  {
    assume "getNode r (ObjRef sk) = Some n"
    then show "MUTATIONS b (ChildList target [] (sk # sks) ps ns) r = (Inl TypeError, r)"
      using un by (simp add: MUTATIONS_childList_def)
  }
  {
    assume "getNode r (ObjRef sk) = None"
    then show "MUTATIONS b (ChildList target [] (sk # sks) ps ns) r
          = (case createNode b sk True r of
               (Inl e, r') \<Rightarrow> (Inl e, r')
             | (Inr n, r') \<Rightarrow> (Inl TypeError, r'))"
      using un by (simp add: MUTATIONS_childList_def split: prod.splits sum.splits)
  }
  {
    assume "removed \<noteq> []"
    then obtain x xs where "rev removed = x # xs"
      by (cases "rev removed") auto
    then show "MUTATIONS b (ChildList target removed added ps ns) r = (Inl TypeError, r)"
      using un by (simp add: MUTATIONS_childList_def)
  }
  {
    assume "added \<noteq> []"
    then obtain sk sks where "added = sk # sks"
      by (cases added) auto
    then show "\<exists>e. fst (MUTATIONS b (ChildList target [] added ps ns) r) = Inl e"
      using un by (auto simp: MUTATIONS_childList_def split: option.splits prod.splits sum.splits)
  }
qed

theorem unresolved_target_witness:
  "getNode ex_renderer (IdRef ''ghost'') = None
   \<and> MUTATIONS (browser_with purify_nothing) (Attributes (IdRef ''ghost'') ''title'' ''x'' []) ex_renderer
       = (Inl TypeError, ex_renderer)
   \<and> MUTATIONS (browser_with purify_nothing) (Properties (IdRef ''ghost'') ''value'' ''x'' []) ex_renderer
       = (Inl TypeError, ex_renderer)
   \<and> MUTATIONS (browser_with purify_nothing)
        (ChildList (IdRef ''ghost'') [IdRef ''t''] [] NullRef NullRef) ex_renderer
       = (Inl TypeError, ex_renderer)
   \<and> (\<exists>e. fst (MUTATIONS (browser_with purify_nothing)
                (ChildList (IdRef ''ghost'') [] [ex_span_skeleton] NullRef NullRef) ex_renderer) = Inl e)
   \<and> MUTATIONS (browser_with purify_nothing) (ChildList (IdRef ''ghost'') [] [] NullRef NullRef) ex_renderer
       = (Inr (), ex_renderer)
   \<and> getNode ex_renderer (ObjRef (Skeleton ELEMENT_NODE ''P'' [] [] [] [] [] ''a'')) = Some 2
   \<and> MUTATIONS (browser_with purify_nothing)
        (ChildList (IdRef ''ghost'') [] [Skeleton ELEMENT_NODE ''P'' [] [] [] [] [] ''a''] NullRef NullRef)
        ex_renderer
       = (Inl TypeError, ex_renderer)
   \<and> getNode ex_renderer (ObjRef ex_span_skeleton) = None
   \<and> fst (MUTATIONS (browser_with purify_nothing)
        (ChildList (IdRef ''ghost'') [] [ex_span_skeleton] NullRef NullRef) ex_renderer) = Inl TypeError
   \<and> NODES (snd (MUTATIONS (browser_with purify_nothing)
        (ChildList (IdRef ''ghost'') [] [ex_span_skeleton] NullRef NullRef) ex_renderer)) ''n3'' = Some 4"
proof -
  have g: "getNode ex_renderer (IdRef ''ghost'') = None"
    "getNode ex_renderer (ObjRef (Skeleton ELEMENT_NODE ''P'' [] [] [] [] [] ''a'')) = Some 2"
    "getNode ex_renderer (ObjRef ex_span_skeleton) = None"
    by (simp_all add: getNode_def ex_renderer_def ex_span_skeleton_def)
  define r4 where
    "r4 = snd (createNode (browser_with purify_nothing) ex_span_skeleton True ex_renderer)"
  have c: "createNode (browser_with purify_nothing) ex_span_skeleton True ex_renderer = (Inr 4, r4)"
    "NODES r4 ''n3'' = Some 4"
    by (simp_all add: r4_def ex_defs dom_defs Let_def)
  note u = unresolved_target [where r = ex_renderer and target = "IdRef ''ghost''"
      and b = "browser_with purify_nothing" and v = "''x''" and ov = "[]"
      and ps = NullRef and ns = NullRef]
  from u [where name = "''title''" and removed = "[IdRef ''t'']" and added = "[]"
      and sk = "Skeleton ELEMENT_NODE ''P'' [] [] [] [] [] ''a''" and n = 2 and sks = "[]"]
    u [where name = "''value''" and removed = "[]" and added = "[ex_span_skeleton]"
      and sk = ex_span_skeleton and sks = "[]"]
    g c
  show ?thesis
    by simp
qed

text \<open>At a concrete input: a characterData record for the unbound id \<open>ghost\<close>
  raises a \<open>TypeError\<close>.\<close>

theorem unresolved_target_raises:
  "MUTATIONS (browser_with purify_nothing) (CharacterData (IdRef ''ghost'') ''x'' []) ex_renderer
     = (Inl TypeError, ex_renderer)"
  by (simp add: MUTATIONS_characterData_def getNode_def ex_renderer_def)




text \<open>
  C4. A characterData record is applied without the sanitizer: its outcome is the same in
  every browser with every sanitizer, and the value is assigned to \<open>nodeValue\<close> as
  given. An attributes record calls \<open>setAttribute\<close> first: when that throws (the
  target is no element, or the DOM does not accept the name) nothing is written and the
  sanitizer does not run; otherwise the attribute holds the value and the sanitizer runs
  afterwards, on the document that already holds it. A properties record performs the
  assignment first, with whatever effect the property has in the browser: when the
  assignment throws nothing is sanitized; otherwise the sanitizer runs afterwards, on the
  document the assignment has left. If the sanitizer throws, what was written stays.
\<close>

theorem sanitizer_calls_by_record_type:
  "MUTATIONS b (CharacterData target v ov) r = MUTATIONS b' (CharacterData target v ov) r
   \<and> (getNode r target = Some a \<longrightarrow>
        MUTATIONS b (CharacterData target v ov) r
          = (Inr (), r\<lparr>doc := set_nodeValue a v (doc r)\<rparr>))
   \<and> (getNode r target = Some a \<longrightarrow>
        MUTATIONS b (Attributes target name v ov) r
          = (case setAttribute b a name v (doc r) of
               Inl e \<Rightarrow> (Inl e, r)
             | Inr d \<Rightarrow>
                 (case DOMPurify_sanitize b a d of
                    Inl e \<Rightarrow> (Inl e, r\<lparr>doc := d\<rparr>)
                  | Inr d' \<Rightarrow> (Inr (), r\<lparr>doc := d'\<rparr>))))
   \<and> (setAttribute b a name v (doc r) = Inr d \<longrightarrow>
        nodeType (nodes (doc r) a) = ELEMENT_NODE \<and> valid_attribute_name b name
        \<and> map_of (attributes (nodes d a)) (toLowerCase name) = Some v)
   \<and> (nodeType (nodes (doc r) a) = ELEMENT_NODE \<and> \<not> valid_attribute_name b name \<longrightarrow>
        setAttribute b a name v (doc r) = Inl InvalidCharacterError)
   \<and> (getNode r target = Some a \<longrightarrow>
        MUTATIONS b (Properties target name v ov) r
          = (case assign_property b a name v (doc r) of
               Inl e \<Rightarrow> (Inl e, r)
             | Inr d \<Rightarrow>
                 (case DOMPurify_sanitize b a d of
                    Inl e \<Rightarrow> (Inl e, r\<lparr>doc := d\<rparr>)
                  | Inr d' \<Rightarrow> (Inr (), r\<lparr>doc := d'\<rparr>))))"
proof (intro conjI impI)
  show "MUTATIONS b (CharacterData target v ov) r = MUTATIONS b' (CharacterData target v ov) r"
    by simp
next
  assume "getNode r target = Some a"
  then show "MUTATIONS b (CharacterData target v ov) r
      = (Inr (), r\<lparr>doc := set_nodeValue a v (doc r)\<rparr>)"
    by (simp add: MUTATIONS_characterData_def)
next
  assume "getNode r target = Some a"
  then show "MUTATIONS b (Attributes target name v ov) r
          = (case setAttribute b a name v (doc r) of
               Inl e \<Rightarrow> (Inl e, r)
             | Inr d \<Rightarrow>
                 (case DOMPurify_sanitize b a d of
                    Inl e \<Rightarrow> (Inl e, r\<lparr>doc := d\<rparr>)
                  | Inr d' \<Rightarrow> (Inr (), r\<lparr>doc := d'\<rparr>)))"
    by (simp add: MUTATIONS_attributes_def)
next
  assume s: "setAttribute b a name v (doc r) = Inr d"
  then show "nodeType (nodes (doc r) a) = ELEMENT_NODE"
    by (simp add: setAttribute_def split: if_splits)
  from s show "valid_attribute_name b name"
    by (simp add: setAttribute_def split: if_splits)
  from s show "map_of (attributes (nodes d a)) (toLowerCase name) = Some v"
    by (auto simp: setAttribute_def upd_node_def update_Some_unfold split: if_splits)
next
  assume "nodeType (nodes (doc r) a) = ELEMENT_NODE \<and> \<not> valid_attribute_name b name"
  then show "setAttribute b a name v (doc r) = Inl InvalidCharacterError"
    by (simp add: setAttribute_def)
next
  assume "getNode r target = Some a"
  then show "MUTATIONS b (Properties target name v ov) r
          = (case assign_property b a name v (doc r) of
               Inl e \<Rightarrow> (Inl e, r)
             | Inr d \<Rightarrow>
                 (case DOMPurify_sanitize b a d of
                    Inl e \<Rightarrow> (Inl e, r\<lparr>doc := d\<rparr>)
                  | Inr d' \<Rightarrow> (Inr (), r\<lparr>doc := d'\<rparr>)))"
    by (simp add: MUTATIONS_properties_def)
qed

theorem sanitizer_calls_by_record_type_witness:
  "getNode ex_renderer (IdRef ''a'') = Some 2
   \<and> nodeType (nodes (doc ex_renderer) 2) = ELEMENT_NODE
   \<and> \<not> valid_attribute_name (browser_with purify_throws) ''not a name''
   \<and> MUTATIONS (browser_with purify_throws) (CharacterData (IdRef ''a'') ''x'' []) ex_renderer
       = MUTATIONS (browser_with purify_nothing) (CharacterData (IdRef ''a'') ''x'' []) ex_renderer
   \<and> fst (MUTATIONS (browser_with purify_throws) (Attributes (IdRef ''a'') ''Title'' ''x'' [])
        ex_renderer) = Inl TypeError
   \<and> attributes (nodes (doc (snd (MUTATIONS (browser_with purify_throws)
         (Attributes (IdRef ''a'') ''Title'' ''x'' []) ex_renderer))) 2) = [(''title'', ''x'')]
   \<and> MUTATIONS (browser_with purify_throws) (Attributes (IdRef ''a'') ''not a name'' ''x'' [])
        ex_renderer = (Inl InvalidCharacterError, ex_renderer)
   \<and> fst (MUTATIONS (browser_with purify_throws) (Properties (IdRef ''a'') ''value'' ''x'' [])
        ex_renderer) = Inl TypeError
   \<and> props (nodes (doc (snd (MUTATIONS (browser_with purify_throws)
         (Properties (IdRef ''a'') ''value'' ''x'' []) ex_renderer))) 2) = [(''value'', ''x'')]"
  using sanitizer_calls_by_record_type [where b = "browser_with purify_throws"
      and b' = "browser_with purify_nothing" and target = "IdRef ''a''" and v = "''x''" and ov = "[]"
      and r = ex_renderer and a = 2 and name = "''Title''"
      and d = "upd_node 2 (\<lambda>n. n\<lparr>attributes := [(''title'', ''x'')]\<rparr>) ex_document"]
    sanitizer_calls_by_record_type [where b = "browser_with purify_throws"
      and b' = "browser_with purify_nothing" and target = "IdRef ''a''" and v = "''x''" and ov = "[]"
      and r = ex_renderer and a = 2 and name = "''not a name''"]
  by (simp add: queue_defs ex_defs dom_defs)

text \<open>At a concrete input: with a sanitizer that throws on every call, a characterData
  record still commits its value.\<close>

theorem sanitizer_calls_by_record_type_cex:
  "MUTATIONS (browser_with purify_throws) (CharacterData (IdRef ''t'') ''new'' ''old'') ex_renderer
     = (Inr (), ex_renderer\<lparr>doc := set_nodeValue 1 ''new'' (doc ex_renderer)\<rparr>)
   \<and> nodeValue (nodes (set_nodeValue 1 ''new'' (doc ex_renderer)) 1) = ''new''"
  by (simp add: queue_defs ex_defs dom_defs)

text \<open>
  C5. The renderer registers \<open>proxyEvent\<close> for \<open>change\<close>, \<open>click\<close>,
  \<open>focus\<close>, \<open>keydown\<close>, \<open>input\<close>, \<open>dblclick\<close> and
  \<open>hashchange\<close>, and not for \<open>touchstart\<close> or \<open>touchend\<close>. The closure
  starts with \<open>touchStart\<close> undefined, and as long as it is undefined the events
  dispatched leave it so: for each dispatched event of a registered type (a
  \<open>change\<close> or \<open>input\<close> event without target apart) the proxy posts that event
  once, under its own type, and it posts nothing else. So a touch event posts nothing, no
  \<open>click\<close> is synthesized from a tap, and no native \<open>click\<close> is suppressed.
\<close>

theorem touch_events_not_proxied:
  "\<not> listens ''touchstart'' \<and> \<not> listens ''touchend''
   \<and> touchStart (renderer_init d rt now href) = None
   \<and> (touchStart r = None \<longrightarrow>
        touchStart (dispatchEvents b es r) = None
        \<and> outbox (dispatchEvents b es r)
            = outbox r @ map (\<lambda>(now, e). EventMessage (serialize_event e))
                           (filter (\<lambda>(now, e). forwarded e) es))"
proof (intro conjI impI)
  show "\<not> listens ''touchstart''" and "\<not> listens ''touchend''"
    by (simp_all add: listens_def ELEMENT_EVENTS_TO_PROXY_def WINDOW_EVENTS_TO_PROXY_def)
  show "touchStart (renderer_init d rt now href) = None"
    by (simp add: renderer_init_def)
next
  assume t: "touchStart r = None"
  from dispatchEvents_untouched [OF t, of b es]
  show "touchStart (dispatchEvents b es r) = None"
    and "outbox (dispatchEvents b es r)
            = outbox r @ map (\<lambda>(now, e). EventMessage (serialize_event e))
                           (filter (\<lambda>(now, e). forwarded e) es)"
    by simp_all
qed

theorem touch_events_not_proxied_witness:
  "touchStart (renderer_init ex_document 0 0 ''https://example.com/'') = None
   \<and> touchStart (dispatchEvents (browser_with purify_nothing)
        [(1, ex_click_event), (2, ex_click_event\<lparr>ev_type := ''change'', ev_target := None\<rparr>),
         (3, ex_click_event\<lparr>ev_type := ''keydown''\<rparr>), (4, ex_click_event\<lparr>ev_type := ''scroll''\<rparr>)]
        (renderer_init ex_document 0 0 ''https://example.com/'')) = None
   \<and> map message_type (outbox (dispatchEvents (browser_with purify_nothing)
        [(1, ex_click_event), (2, ex_click_event\<lparr>ev_type := ''change'', ev_target := None\<rparr>),
         (3, ex_click_event\<lparr>ev_type := ''keydown''\<rparr>), (4, ex_click_event\<lparr>ev_type := ''scroll''\<rparr>)]
        (renderer_init ex_document 0 0 ''https://example.com/'')))
       = [''init'', ''click'', ''keydown'']"
  using touch_events_not_proxied [where r = "renderer_init ex_document 0 0 ''https://example.com/''"
      and d = ex_document and rt = 0 and now = 0 and href = "''https://example.com/''"
      and b = "browser_with purify_nothing"
      and es = "[(1, ex_click_event), (2, ex_click_event\<lparr>ev_type := ''change'', ev_target := None\<rparr>),
         (3, ex_click_event\<lparr>ev_type := ''keydown''\<rparr>), (4, ex_click_event\<lparr>ev_type := ''scroll''\<rparr>)]"]
  by (simp add: renderer_init_def forwarded_def listens_def ELEMENT_EVENTS_TO_PROXY_def
      WINDOW_EVENTS_TO_PROXY_def ex_click_event_def message_type_def serialize_event_def)

text \<open>At a concrete input: a \<open>touchstart\<close> and a \<open>touchend\<close> at the same
  point, followed by the native \<open>click\<close> of the same interaction. Nothing is posted
  for the two touch events, no \<open>click\<close> is synthesized, and the native
  \<open>click\<close> is forwarded.\<close>

theorem touch_events_not_proxied_cex:
  "outbox (dispatchEvents (browser_with purify_nothing)
      [(1, ex_touch_event ''touchstart'' 0 0), (2, ex_touch_event ''touchend'' 0 0)] ex_renderer) = []
   \<and> outbox (dispatchEvents (browser_with purify_nothing)
      [(1, ex_touch_event ''touchstart'' 0 0), (2, ex_touch_event ''touchend'' 0 0),
       (3, ex_click_event)] ex_renderer)
     = [EventMessage (serialize_event ex_click_event)]"
  by (simp add: event_defs ex_renderer_def Let_def)

text \<open>
  C6, at a concrete input. Two \<open>enqueueMutation\<close> calls in a row leave one timeout
  pending, but two idle callbacks; when \<open>processMutations\<close> then runs from the timer
  and drains the queue, it clears the timer, and the two idle callbacks are still pending.
\<close>

theorem idle_callbacks_accumulate:
  "idle_callbacks (enqueueMutation ex_property_record (enqueueMutation ex_text_record ex_renderer)) = 2
   \<and> timers (enqueueMutation ex_property_record (enqueueMutation ex_text_record ex_renderer)) = [1]
   \<and> fst (processMutations (browser_with purify_nothing) ex_window_onscreen None ex_clock
        (enqueueMutation ex_property_record (enqueueMutation ex_text_record ex_renderer))) = Inr ()
   \<and> MUTATION_QUEUE (snd (processMutations (browser_with purify_nothing) ex_window_onscreen None ex_clock
        (enqueueMutation ex_property_record (enqueueMutation ex_text_record ex_renderer)))) = []
   \<and> timers (snd (processMutations (browser_with purify_nothing) ex_window_onscreen None ex_clock
        (enqueueMutation ex_property_record (enqueueMutation ex_text_record ex_renderer)))) = []
   \<and> idle_callbacks (snd (processMutations (browser_with purify_nothing) ex_window_onscreen None ex_clock
        (enqueueMutation ex_property_record (enqueueMutation ex_text_record ex_renderer)))) = 2"
  by (simp add: queue_defs rec_defs ex_defs dom_defs Let_def)




text \<open>
  C8, at a concrete input. For an element skeleton with the style map
  \<open>{color: red}\<close>, \<open>createNode\<close> ends in a \<open>ReferenceError\<close>: no style
  is set and the skeleton's id is not bound.
\<close>

theorem createNode_style_ReferenceError:
  "fst (createNode (browser_with purify_nothing) ex_styled_skeleton True ex_renderer) = Inl ReferenceError
   \<and> NODES (snd (createNode (browser_with purify_nothing) ex_styled_skeleton True ex_renderer)) ''n4'' = None
   \<and> style (nodes (doc (snd (createNode (browser_with purify_nothing) ex_styled_skeleton True
        ex_renderer))) 4) = []"
  by (simp add: ex_defs dom_defs Let_def)




text \<open>
  C10. Every call of \<open>proxyEvent\<close> leaves the gesture clock at its reading of
  \<open>Date.now()\<close>, whatever the event and the state. So along a run of calls the clock
  takes the readings one after the other: it is non-decreasing exactly when the readings
  are. A dispatched event of a type the proxy is not registered for leaves the state as it
  is; draining and enqueueing leave the clock alone.
\<close>

theorem gesture_clock_is_last_reading:
  "timeOfLastUserGesture (snd (proxyEvent b now e r)) = now
   \<and> gesture_clock_trace b es r = map fst es
   \<and> (sorted (timeOfLastUserGesture r # gesture_clock_trace b es r)
        \<longleftrightarrow> sorted (timeOfLastUserGesture r # map fst es))
   \<and> timeOfLastUserGesture (dispatchEvent b now e r)
       = (if listens (ev_type e) then now else timeOfLastUserGesture r)
   \<and> timeOfLastUserGesture (snd (processMutations b w thr c r)) = timeOfLastUserGesture r
   \<and> timeOfLastUserGesture (enqueueMutation m r) = timeOfLastUserGesture r"
  by (simp add: proxyEvent_clock gesture_clock_trace_eq processMutations_clock
      enqueueMutation_def processMutationsSoon_frame dispatchEvent_clock)

theorem gesture_clock_is_last_reading_witness:
  "sorted (0 # gesture_clock_trace (browser_with purify_nothing)
      [(3, ex_click_event), (3, ex_click_event\<lparr>ev_type := ''keydown''\<rparr>), (9, ex_click_event)]
      ex_renderer)
   \<and> timeOfLastUserGesture (dispatchEvent (browser_with purify_nothing) 7 ex_click_event
        ex_renderer) = 7
   \<and> timeOfLastUserGesture (dispatchEvent (browser_with purify_nothing) 7
        (ex_touch_event ''touchstart'' 0 0) ex_renderer) = 0"
  using gesture_clock_is_last_reading [where b = "browser_with purify_nothing" and now = 7
      and e = ex_click_event and r = ex_renderer
      and es = "[(3, ex_click_event), (3, ex_click_event\<lparr>ev_type := ''keydown''\<rparr>),
                 (9, ex_click_event)]"]
    gesture_clock_is_last_reading [where b = "browser_with purify_nothing" and now = 7
      and e = "ex_touch_event ''touchstart'' 0 0" and r = ex_renderer and es = "[]"]
  by (simp add: listens_def ELEMENT_EVENTS_TO_PROXY_def WINDOW_EVENTS_TO_PROXY_def
      ex_click_event_def ex_touch_event_def ex_renderer_def)

text \<open>At a concrete input: two clicks, the first read at 9 and the second at 3 (the
  wall clock was set back in between). The gesture clock goes from 9 back to 3.\<close>

theorem gesture_clock_is_last_reading_cex:
  "gesture_clock_trace (browser_with purify_nothing) [(9, ex_click_event), (3, ex_click_event)]
      ex_renderer = [9, 3]
   \<and> timeOfLastUserGesture (dispatchEvents (browser_with purify_nothing) [(9, ex_click_event)]
        ex_renderer) = 9
   \<and> timeOfLastUserGesture (dispatchEvents (browser_with purify_nothing)
        [(9, ex_click_event), (3, ex_click_event)] ex_renderer) = 3"
  by (simp add: event_defs ex_renderer_def Let_def)

end
